theory Spec2Isabelle
  imports Main
begin

section \<open>The diagnostics orchestrator of dev-diagnostics.js\<close>

text \<open>
  The script runs in a browser page. Everything it reads from the browser is an input of
  the model (the record \<open>env\<close>): the page's \<open>location.protocol\<close>, \<open>navigator.onLine\<close>,
  and how the network answers each \<open>fetch\<close>. Everything it changes is the state
  (the record \<open>world\<close>): the clock behind \<open>Date.now()\<close>, the diagnostics panel of the
  document (its message rows and its action buttons) and the list of requests handed
  to \<open>fetch\<close>. Console output carries no state any function reads and is left out, and so
  are the handlers of the close button and of the action buttons other than 'Run checks
  again' (they hide the panel, copy a text, open a help page or add a help row).
\<close>

subsection \<open>Values of the platform\<close>

type_synonym ms = nat

text \<open>An exception value; the string is its \<open>message\<close> property.\<close>

datatype js_error = Error (message: string)

text \<open>
  A value produced by \<open>JSON.parse\<close>. A number is kept as its literal text; an object is
  the list of its own properties (\<open>map_of\<close> reads one).
\<close>

datatype json =
    JNull
  | JBool bool
  | JNum string
  | JStr string
  | JArr "json list"
  | JObj "(string \<times> json) list"

text \<open>
  What the body of a response does when \<open>res.json()\<close> is awaited: it arrives and parses
  after some time, the read or the parse rejects after some time, or the promise never
  settles (the server stops sending).
\<close>

datatype body_behaviour =
    BodyParsed ms json
  | BodyRejects ms js_error
  | BodyNever

record response =
  status :: nat
  body :: body_behaviour

text \<open>What the network does with one \<open>fetch\<close>, counted from the moment it is issued.\<close>

datatype fetch_behaviour =
    Responds ms response
  | FetchRejects ms js_error
  | FetchNever

datatype abort_signal = AbortSignal nat

text \<open>
  The options object given to \<open>fetch\<close>; an absent property is \<open>None\<close>. The field
  \<open>http_method\<close> is the property \<open>method\<close>.
\<close>

record request_init =
  http_method :: "string option"
  mode :: "string option"
  cache :: "string option"
  signal :: "abort_signal option"

record request =
  url :: string
  init :: request_init
  issued_at :: ms

text \<open>The two TypeErrors the engine itself can raise in this script; their texts are the engine's.\<close>

datatype engine_fault = ReadPropertyOfNull | ConvertToPrimitive

record env =
  protocol :: string
  onLine :: bool
  network :: "string \<Rightarrow> request_init \<Rightarrow> fetch_behaviour"
  engine_message :: "engine_fault \<Rightarrow> string"

subsection \<open>The panel\<close>

datatype level = Info | Warn | Err

text \<open>
  One row of the panel, named by the title \<open>addMessage\<close> is called with:
  \<^item> \<open>StartingDiagnostics\<close>: 'Starting diagnostics'
  \<^item> \<open>PageLoadedViaFile\<close>: 'Page loaded via file:// (local file).'
  \<^item> \<open>PageOpenedOver p\<close>: 'Page opened over ' + p
  \<^item> \<open>CheckingLocalServers ps\<close>: 'Checking local dev servers (ports: ...)'
  \<^item> \<open>LocalServerDetected up\<close>: 'Local dev server detected', with the responding ports
  \<^item> \<open>NoLocalServerDetected ps\<close>: 'No local dev server detected'
  \<^item> \<open>CheckingExternal\<close>: 'Checking external connectivity...'
  \<^item> \<open>ExternalOK ip\<close>: 'External connectivity OK', with 'Public IP: ' + ip
  \<^item> \<open>UnableToFetchExternalIP\<close>: 'Unable to fetch external IP'
  \<^item> \<open>NetworkAppearsOffline\<close>: 'Network appears offline'
  \<^item> \<open>NetworkAdapterOnline\<close>: 'Network adapter: online'
  \<^item> \<open>ConnectivityTestFailed\<close>: 'Connectivity test failed'
  \<^item> \<open>LikelyCauseFileNoServer\<close>: 'Likely cause: file:// + no dev server'
  \<^item> \<open>PatternLocalOkExternalFails\<close>: 'Pattern: local server OK but external fetch fails'
  \<^item> \<open>NetworkOfflineReconnect\<close>: 'Network offline - reconnect required'
\<close>

datatype msg =
    StartingDiagnostics
  | PageLoadedViaFile
  | PageOpenedOver string
  | CheckingLocalServers "nat list"
  | LocalServerDetected "nat list"
  | NoLocalServerDetected "nat list"
  | CheckingExternal
  | ExternalOK "json option"
  | UnableToFetchExternalIP
  | NetworkAppearsOffline
  | NetworkAdapterOnline
  | ConnectivityTestFailed
  | LikelyCauseFileNoServer
  | PatternLocalOkExternalFails
  | NetworkOfflineReconnect

text \<open>The buttons \<open>addActionButton\<close> is called for, named by their labels.\<close>

datatype action =
    OpenLiveServerDocs
  | CopyStartSimpleServer
  | CopyNpmStart
  | ProxyVpnHelp
  | MacOsProxyCheck
  | WindowsProxyCheck
  | NetworkTroubleshooting
  | CopyChecklist
  | RunChecksAgain

record panel =
  messages :: "(level \<times> msg) list"
  actions :: "action list"

record world =
  now :: ms
  panel :: "panel option"
  requests :: "request list"

definition ensurePanel :: "world \<Rightarrow> world" where
  "ensurePanel s =
     (case panel s of
        Some p \<Rightarrow> s
      | None \<Rightarrow> s\<lparr>panel := Some \<lparr>messages = [], actions = []\<rparr>\<rparr>)"

definition the_panel :: "world \<Rightarrow> panel" where
  "the_panel s = (case panel s of Some p \<Rightarrow> p | None \<Rightarrow> \<lparr>messages = [], actions = []\<rparr>)"

definition addMessage :: "level \<Rightarrow> msg \<Rightarrow> world \<Rightarrow> world" where
  "addMessage lv m s =
     (let p = the_panel (ensurePanel s)
      in s\<lparr>panel := Some (p\<lparr>messages := messages p @ [(lv, m)]\<rparr>)\<rparr>)"

definition addActionButton :: "action \<Rightarrow> world \<Rightarrow> world" where
  "addActionButton a s =
     (let p = the_panel (ensurePanel s)
      in s\<lparr>panel := Some (p\<lparr>actions := actions p @ [a]\<rparr>)\<rparr>)"

text \<open>The rows and the buttons the document shows (none before the panel exists).\<close>

definition shown :: "world \<Rightarrow> (level \<times> msg) list" where
  "shown s = messages (the_panel s)"

definition buttons :: "world \<Rightarrow> action list" where
  "buttons s = actions (the_panel s)"

subsection \<open>Configuration\<close>

definition LOCAL_PORTS :: "nat list" where
  "LOCAL_PORTS = [5500, 3000, 8080]"

definition LOCAL_PATH :: string where
  "LOCAL_PATH = ''/''"

definition EXTERNAL_IP_URL :: string where
  "EXTERNAL_IP_URL = ''https://api.ipify.org?format=json''"

definition EXTERNAL_TIMEOUT :: ms where
  "EXTERNAL_TIMEOUT = 4000"

definition LOCAL_TIMEOUT :: ms where
  "LOCAL_TIMEOUT = 2000"

subsection \<open>fetchWithTimeout\<close>

text \<open>
  \<open>fetchWithTimeout(url, timeoutMs, options)\<close> starts a timer that rejects with
  \<open>new Error('timeout')\<close> and hands \<open>url\<close> and \<open>options\<close>, unchanged, to \<open>fetch\<close>; whichever
  settles first settles the promise: it rejects with an error (\<open>Inl\<close>) or resolves with
  the response (\<open>Inr\<close>). \<open>race\<close> is that choice (the timer wins a tie) with the time the
  caller has waited; \<open>issue\<close> is the call of \<open>fetch\<close>.
\<close>

definition race :: "ms \<Rightarrow> fetch_behaviour \<Rightarrow> (js_error + response) \<times> ms" where
  "race timeoutMs b =
     (case b of
        Responds d res \<Rightarrow>
          if d < timeoutMs then (Inr res, d) else (Inl (Error ''timeout''), timeoutMs)
      | FetchRejects d err \<Rightarrow>
          if d < timeoutMs then (Inl err, d) else (Inl (Error ''timeout''), timeoutMs)
      | FetchNever \<Rightarrow> (Inl (Error ''timeout''), timeoutMs))"

definition issue :: "string \<Rightarrow> request_init \<Rightarrow> world \<Rightarrow> world" where
  "issue u opts s = s\<lparr>requests := requests s @ [\<lparr>url = u, init = opts, issued_at = now s\<rparr>]\<rparr>"

definition elapse :: "ms \<Rightarrow> world \<Rightarrow> world" where
  "elapse d s = s\<lparr>now := now s + d\<rparr>"

definition fetchWithTimeout ::
  "env \<Rightarrow> string \<Rightarrow> ms \<Rightarrow> request_init \<Rightarrow> world \<Rightarrow> (js_error + response) \<times> world" where
  "fetchWithTimeout e u timeoutMs opts s =
     (let (st, d) = race timeoutMs (network e u opts)
      in (st, elapse d (issue u opts s)))"

subsection \<open>Check 1: the page's protocol\<close>

definition checkFileProtocol :: "env \<Rightarrow> world \<Rightarrow> world" where
  "checkFileProtocol e s =
     (if protocol e = ''file:''
      then addActionButton CopyStartSimpleServer
             (addActionButton OpenLiveServerDocs (addMessage Warn PageLoadedViaFile s))
      else addMessage Info (PageOpenedOver (protocol e)) s)"

subsection \<open>Check 2: the localhost ports\<close>

record port_result =
  port :: nat
  ok :: bool
  info :: "string option"

text \<open>Decimal text of a number, as a template literal renders a port or \<open>Date.now()\<close>.\<close>

fun number_to_string :: "nat \<Rightarrow> string" where
  "number_to_string n =
     (if n < 10 then [''0123456789'' ! n]
      else number_to_string (n div 10) @ [''0123456789'' ! (n mod 10)])"

declare number_to_string.simps [simp del]

definition local_url :: "nat \<Rightarrow> ms \<Rightarrow> string" where
  "local_url p t =
     ''http://localhost:'' @ number_to_string p @ LOCAL_PATH @ ''?_dev_diag='' @ number_to_string t"

definition local_init :: request_init where
  "local_init = \<lparr>http_method = Some ''GET'', mode = Some ''no-cors'', cache = None, signal = None\<rparr>"

text \<open>The \<open>try\<close>/\<open>catch\<close> in the loop body: what is pushed for a port once its probe settles.\<close>

definition local_result :: "nat \<Rightarrow> js_error + response \<Rightarrow> port_result" where
  "local_result p st =
     (case st of
        Inr res \<Rightarrow> \<lparr>port = p, ok = True, info = None\<rparr>
      | Inl err \<Rightarrow> \<lparr>port = p, ok = False, info = Some (message err)\<rparr>)"

text \<open>One turn of the loop \<open>for (const port of LOCAL_PORTS)\<close>.\<close>

definition probe_port :: "env \<Rightarrow> nat \<Rightarrow> world \<Rightarrow> port_result \<times> world" where
  "probe_port e p s =
     (let (st, s') = fetchWithTimeout e (local_url p (now s)) LOCAL_TIMEOUT local_init s
      in (local_result p st, s'))"

fun probe_ports ::
  "env \<Rightarrow> nat list \<Rightarrow> port_result list \<Rightarrow> world \<Rightarrow> port_result list \<times> world" where
  "probe_ports e [] results s = (results, s)"
| "probe_ports e (p # ps) results s =
     (let (r, s') = probe_port e p s in probe_ports e ps (results @ [r]) s')"

text \<open>After the loop: the row that reports the responding ports, or none.\<close>

definition report_local :: "port_result list \<Rightarrow> world \<Rightarrow> world" where
  "report_local results s =
     (let up = filter ok results
      in if length up > 0
         then addMessage Info (LocalServerDetected (map port up)) s
         else addActionButton CopyNpmStart (addMessage Warn (NoLocalServerDetected LOCAL_PORTS) s))"

definition checkLocalServers :: "env \<Rightarrow> world \<Rightarrow> port_result list \<times> world" where
  "checkLocalServers e s =
     (let s1 = addMessage Info (CheckingLocalServers LOCAL_PORTS) s;
          (results, s2) = probe_ports e LOCAL_PORTS [] s1
      in (results, report_local results s2))"

subsection \<open>Check 3: external connectivity\<close>

text \<open>The object the check returns; the field \<open>ext_ok\<close> is its property \<open>ok\<close>.\<close>

record external_result =
  ext_ok :: bool
  ip :: "json option"
  error :: "string option"

text \<open>
  An \<open>async\<close> function that awaits a promise which never settles never returns; the
  document stays as the function left it.
\<close>

datatype 'a completion = Returns 'a world | Never_returns world

definition external_init :: request_init where
  "external_init = \<lparr>http_method = None, mode = None, cache = Some ''no-store'', signal = None\<rparr>"

text \<open>
  \<open>json.ip\<close>: reading a property of \<open>null\<close> throws; an object yields its own property
  (\<open>undefined\<close>, here \<open>None\<close>, when it has none of that name); a boolean, a number, a
  string or an array has no property \<open>ip\<close>.
\<close>

definition read_ip :: "env \<Rightarrow> json \<Rightarrow> js_error + json option" where
  "read_ip e j =
     (case j of
        JNull \<Rightarrow> Inl (Error (engine_message e ReadPropertyOfNull))
      | JObj props \<Rightarrow> Inr (map_of props ''ip'')
      | _ \<Rightarrow> Inr None)"

text \<open>
  Whether the template literal \<open>`${json.ip}`\<close> can turn the value into text. An object
  from \<open>JSON.parse\<close> converts through \<open>Object.prototype.toString\<close> unless an own
  property \<open>toString\<close> (never callable) hides it, and then the conversion throws; an
  array joins the texts of its elements, \<open>null\<close> counting as the empty text.
\<close>

fun renders :: "json \<Rightarrow> bool" where
  "renders (JObj props) = (''toString'' \<notin> fst ` set props)"
| "renders (JArr xs) = list_all renders xs"
| "renders j = True"

definition renders_value :: "json option \<Rightarrow> bool" where
  "renders_value v = (case v of None \<Rightarrow> True | Some j \<Rightarrow> renders j)"

text \<open>The \<open>catch\<close> block of \<open>checkExternalConnectivity\<close>.\<close>

definition external_catch :: "js_error \<Rightarrow> world \<Rightarrow> external_result \<times> world" where
  "external_catch err s =
     (\<lparr>ext_ok = False, ip = None, error = Some (message err)\<rparr>,
      addActionButton WindowsProxyCheck
        (addActionButton MacOsProxyCheck
          (addActionButton ProxyVpnHelp (addMessage Warn UnableToFetchExternalIP s))))"

text \<open>The rest of the \<open>try\<close> block once \<open>res.json()\<close> has resolved with \<open>j\<close>.\<close>

definition external_try :: "env \<Rightarrow> json \<Rightarrow> world \<Rightarrow> external_result \<times> world" where
  "external_try e j s =
     (case read_ip e j of
        Inl err \<Rightarrow> external_catch err s
      | Inr v \<Rightarrow>
          if renders_value v
          then (\<lparr>ext_ok = True, ip = v, error = None\<rparr>, addMessage Info (ExternalOK v) s)
          else external_catch (Error (engine_message e ConvertToPrimitive)) s)"

definition checkExternalConnectivity :: "env \<Rightarrow> world \<Rightarrow> external_result completion" where
  "checkExternalConnectivity e s =
     (let s1 = addMessage Info CheckingExternal s;
          (st, s2) = fetchWithTimeout e EXTERNAL_IP_URL EXTERNAL_TIMEOUT external_init s1
      in case st of
           Inl err \<Rightarrow> (case external_catch err s2 of (r, s3) \<Rightarrow> Returns r s3)
         | Inr res \<Rightarrow>
             (case body res of
                BodyParsed d j \<Rightarrow>
                  (case external_try e j (elapse d s2) of (r, s3) \<Rightarrow> Returns r s3)
              | BodyRejects d err \<Rightarrow>
                  (case external_catch err (elapse d s2) of (r, s3) \<Rightarrow> Returns r s3)
              | BodyNever \<Rightarrow> Never_returns s2))"

subsection \<open>Check 4: the network adapter\<close>

record adapter_result =
  online :: bool
  check :: "string option"

definition adapter_init :: request_init where
  "adapter_init = \<lparr>http_method = Some ''HEAD'', mode = Some ''no-cors'', cache = None, signal = None\<rparr>"

definition checkNetworkAdapter :: "env \<Rightarrow> world \<Rightarrow> adapter_result \<times> world" where
  "checkNetworkAdapter e s =
     (if \<not> onLine e
      then (\<lparr>online = False, check = None\<rparr>,
            addActionButton NetworkTroubleshooting (addMessage Err NetworkAppearsOffline s))
      else
        (let s1 = addMessage Info NetworkAdapterOnline s;
             (st, s2) = fetchWithTimeout e ''https://example.com/'' 3000 adapter_init s1
         in case st of
              Inr res \<Rightarrow> (\<lparr>online = True, check = Some ''ok''\<rparr>, s2)
            | Inl err \<Rightarrow>
                (\<lparr>online = True, check = Some ''failed''\<rparr>,
                 addMessage Warn ConnectivityTestFailed s2)))"

subsection \<open>The orchestrator\<close>

text \<open>
  The first half of \<open>runAllChecks\<close>: the panel, the opening row and the four checks in
  their order, with the three values the second half reads.
\<close>

definition run_checks ::
  "env \<Rightarrow> world \<Rightarrow> (port_result list \<times> external_result \<times> adapter_result) completion" where
  "run_checks e s =
     (let s1 = addMessage Info StartingDiagnostics (ensurePanel s);
          s2 = checkFileProtocol e s1;
          (localResults, s3) = checkLocalServers e s2
      in case checkExternalConnectivity e s3 of
           Never_returns w \<Rightarrow> Never_returns w
         | Returns external s4 \<Rightarrow>
             (let (net, s5) = checkNetworkAdapter e s4
              in Returns (localResults, external, net) s5))"

text \<open>The second half: the heuristic summaries and the two closing buttons.\<close>

definition heuristic_summaries ::
  "env \<Rightarrow> port_result list \<Rightarrow> external_result \<Rightarrow> adapter_result \<Rightarrow> world \<Rightarrow> world" where
  "heuristic_summaries e localResults external net s =
     (let s1 = (if protocol e = ''file:'' \<and> list_all (\<lambda>r. \<not> ok r) localResults
                then addMessage Warn LikelyCauseFileNoServer s else s);
          s2 = (if \<not> ext_ok external \<and> list_ex (\<lambda>r. ok r) localResults
                then addMessage Warn PatternLocalOkExternalFails s1 else s1);
          s3 = (if \<not> online net
                then addMessage Err NetworkOfflineReconnect s2 else s2)
      in addActionButton RunChecksAgain (addActionButton CopyChecklist s3))"

text \<open>\<open>runAllChecks\<close> has no \<open>return\<close>: its promise resolves with \<open>undefined\<close>, here \<open>()\<close>.\<close>

definition runAllChecks :: "env \<Rightarrow> world \<Rightarrow> unit completion" where
  "runAllChecks e s =
     (case run_checks e s of
        Never_returns w \<Rightarrow> Never_returns w
      | Returns (localResults, external, net) s' \<Rightarrow>
          Returns () (heuristic_summaries e localResults external net s'))"

subsection \<open>What a run adds to the panel\<close>

text \<open>The rows the panel shows in \<open>s'\<close> beyond those it showed in \<open>s\<close>.\<close>

definition emitted :: "world \<Rightarrow> world \<Rightarrow> (level \<times> msg) list" where
  "emitted s s' = drop (length (shown s)) (shown s')"

text \<open>
  The rows of each check, read off its result; the lemmas of the next section prove
  that the checks add exactly these.
\<close>

definition protocol_row :: "env \<Rightarrow> level \<times> msg" where
  "protocol_row e =
     (if protocol e = ''file:'' then (Warn, PageLoadedViaFile)
      else (Info, PageOpenedOver (protocol e)))"

definition local_row :: "port_result list \<Rightarrow> level \<times> msg" where
  "local_row results =
     (if list_ex ok results
      then (Info, LocalServerDetected (map port (filter ok results)))
      else (Warn, NoLocalServerDetected LOCAL_PORTS))"

definition external_row :: "external_result \<Rightarrow> level \<times> msg" where
  "external_row r =
     (if ext_ok r then (Info, ExternalOK (ip r)) else (Warn, UnableToFetchExternalIP))"

definition adapter_rows :: "adapter_result \<Rightarrow> (level \<times> msg) list" where
  "adapter_rows n =
     (if \<not> online n then [(Err, NetworkAppearsOffline)]
      else if check n = Some ''ok'' then [(Info, NetworkAdapterOnline)]
      else [(Info, NetworkAdapterOnline), (Warn, ConnectivityTestFailed)])"

definition check_rows ::
  "env \<Rightarrow> port_result list \<Rightarrow> external_result \<Rightarrow> adapter_result \<Rightarrow> (level \<times> msg) list" where
  "check_rows e localResults external net =
     [(Info, StartingDiagnostics), protocol_row e,
      (Info, CheckingLocalServers LOCAL_PORTS), local_row localResults,
      (Info, CheckingExternal), external_row external] @ adapter_rows net"

definition summary_rows ::
  "env \<Rightarrow> port_result list \<Rightarrow> external_result \<Rightarrow> adapter_result \<Rightarrow> (level \<times> msg) list" where
  "summary_rows e localResults external net =
     (if protocol e = ''file:'' \<and> list_all (\<lambda>r. \<not> ok r) localResults
      then [(Warn, LikelyCauseFileNoServer)] else []) @
     (if \<not> ext_ok external \<and> list_ex (\<lambda>r. ok r) localResults
      then [(Warn, PatternLocalOkExternalFails)] else []) @
     (if \<not> online net then [(Err, NetworkOfflineReconnect)] else [])"

text \<open>What an \<open>async\<close> call resolved with, if it did, and the document as it left it.\<close>

fun returned :: "'a completion \<Rightarrow> 'a option" where
  "returned (Returns x w) = Some x"
| "returned (Never_returns w) = None"

fun final :: "'a completion \<Rightarrow> world" where
  "final (Returns x w) = w"
| "final (Never_returns w) = w"

text \<open>
  A \<open>fetch\<close> that loses the race against a timer of \<open>t\<close> milliseconds, and one that wins it
  with a response.
\<close>

definition times_out :: "ms \<Rightarrow> fetch_behaviour \<Rightarrow> bool" where
  "times_out t b =
     (case b of Responds d res \<Rightarrow> t \<le> d | FetchRejects d err \<Rightarrow> t \<le> d | FetchNever \<Rightarrow> True)"

definition responds_within :: "ms \<Rightarrow> fetch_behaviour \<Rightarrow> bool" where
  "responds_within t b =
     (case b of Responds d res \<Rightarrow> d < t | FetchRejects d err \<Rightarrow> False | FetchNever \<Rightarrow> False)"

text \<open>
  The same network with every response's status replaced: what a check does not read
  cannot change its result.
\<close>

definition with_status :: "nat \<Rightarrow> env \<Rightarrow> env" where
  "with_status n e =
     e\<lparr>network := (\<lambda>u opts.
          case network e u opts of
            Responds d res \<Rightarrow> Responds d (res\<lparr>status := n\<rparr>)
          | FetchRejects d err \<Rightarrow> FetchRejects d err
          | FetchNever \<Rightarrow> FetchNever)\<rparr>"

text \<open>
  The configuration object of the specification's contract \<open>runDiagnostics(config)\<close>. The
  script has no such object: \<open>runAllChecks\<close> declares no parameter and reads the
  constants above. A call that passes arguments to a function without parameters
  discards them.
\<close>

record config =
  localPorts :: "nat list"
  localPath :: string
  externalProbeUrl :: string
  perPortTimeoutMs :: ms
  externalTimeoutMs :: ms

definition runAllChecks_called_with :: "'a list \<Rightarrow> env \<Rightarrow> world \<Rightarrow> unit completion" where
  "runAllChecks_called_with args e s = runAllChecks e s"

text \<open>
  What it means that the ports were probed: request \<open>q\<close> is the probe of port \<open>p\<close> (a GET
  in mode no-cors to that port of localhost, with the time of its issue as the
  cache-busting parameter), and result \<open>r\<close> is what that request's outcome on the network
  of \<open>e\<close>, within 2000 ms, makes of its port.
\<close>

definition probes :: "request \<Rightarrow> nat \<Rightarrow> bool" where
  "probes q p =
     (url q = ''http://localhost:'' @ number_to_string p @ ''/?_dev_diag='' @
                number_to_string (issued_at q) \<and>
      init q = \<lparr>http_method = Some ''GET'', mode = Some ''no-cors'', cache = None, signal = None\<rparr>)"

definition answers :: "env \<Rightarrow> port_result \<Rightarrow> request \<Rightarrow> bool" where
  "answers e r q =
     (case fst (race 2000 (network e (url q) (init q))) of
        Inr res \<Rightarrow> r = \<lparr>port = port r, ok = True, info = None\<rparr>
      | Inl err \<Rightarrow> r = \<lparr>port = port r, ok = False, info = Some (message err)\<rparr>)"

subsection \<open>Runs that overlap\<close>

text \<open>
  \<open>runAllChecks\<close> is an \<open>async\<close> function: it runs until it awaits a promise that has not
  settled, and is resumed, in a later task, when that promise settles. In between other
  tasks run on the same document: the click handler of the button 'Run checks again',
  which empties the message list and calls \<open>runAllChecks\<close> again, and the resumptions
  of other calls still in flight.

  A suspended call is described by what it waits for and by the local variables it
  will read: the probe of a port (with the ports still to probe and the results pushed
  so far), the fetch of the external check, the body of its response \<open>res\<close>, or the
  probe of the adapter check.
\<close>

datatype waiting =
    Local_probe nat "nat list" "port_result list"
  | External_fetch "port_result list"
  | External_body "port_result list" response
  | Adapter_probe "port_result list" external_result

text \<open>What an awaited promise settles with: that of \<open>fetchWithTimeout\<close>, or that of \<open>res.json()\<close>.\<close>

datatype settled =
    Fetch_settled "js_error + response"
  | Body_settled "js_error + json"







text \<open>\<open>panel.querySelector('#dev-diagnostics-messages').innerHTML = ''\<close>\<close>

definition clear_messages :: "world \<Rightarrow> world" where
  "clear_messages s = s\<lparr>panel := map_option (\<lambda>p. p\<lparr>messages := []\<rparr>) (panel s)\<rparr>"





text \<open>
  A call that runs alone: each promise it awaits settles as the network of \<open>e\<close> decides,
  after the time that takes, and nothing else touches the document in between. The
  request it waits for is then the last one issued. \<open>steps_left\<close> bounds the awaits
  still ahead.
\<close>

definition awaited_fetch :: "env \<Rightarrow> ms \<Rightarrow> world \<Rightarrow> settled \<times> ms" where
  "awaited_fetch e t s =
     (let q = last (requests s); (st, d) = race t (network e (url q) (init q))
      in (Fetch_settled st, d))"

fun settles :: "env \<Rightarrow> waiting \<Rightarrow> world \<Rightarrow> (settled \<times> ms) option" where
  "settles e (Local_probe p ps results) s = Some (awaited_fetch e LOCAL_TIMEOUT s)"
| "settles e (External_fetch results) s = Some (awaited_fetch e EXTERNAL_TIMEOUT s)"
| "settles e (External_body results res) s =
     (case body res of
        BodyParsed d j \<Rightarrow> Some (Body_settled (Inr j), d)
      | BodyRejects d err \<Rightarrow> Some (Body_settled (Inl err), d)
      | BodyNever \<Rightarrow> None)"
| "settles e (Adapter_probe results external) s = Some (awaited_fetch e 3000 s)"




subsection \<open>Scenarios\<close>

text \<open>
  Concrete pages and networks on which the theorems below are instantiated. The first
  two are the scenarios of the specification: a page opened from disk with no server
  on any port and a reachable IP service; a page served over http with a server on
  port 5500 and an IP service that never answers.
\<close>

definition engine_text :: "engine_fault \<Rightarrow> string" where
  "engine_text f =
     (case f of
        ReadPropertyOfNull \<Rightarrow> ''json is null''
      | ConvertToPrimitive \<Rightarrow> ''Cannot convert object to primitive value'')"

definition page_load :: world where
  "page_load = \<lparr>now = 1000, panel = None, requests = []\<rparr>"

definition ip_response :: response where
  "ip_response = \<lparr>status = 200, body = BodyParsed 40 (JObj [(''ip'', JStr ''203.0.113.45'')])\<rparr>"

definition opaque_response :: response where
  "opaque_response = \<lparr>status = 0, body = BodyRejects 0 (Error ''opaque'')\<rparr>"

definition scenario_file :: env where
  "scenario_file =
     \<lparr>protocol = ''file:'', onLine = True,
      network = (\<lambda>u opts.
        if u = EXTERNAL_IP_URL then Responds 150 ip_response
        else if u = ''https://example.com/'' then Responds 90 opaque_response
        else FetchRejects 12 (Error ''Failed to fetch'')),
      engine_message = engine_text\<rparr>"

definition scenario_http :: env where
  "scenario_http =
     \<lparr>protocol = ''http:'', onLine = True,
      network = (\<lambda>u opts.
        if take 22 u = ''http://localhost:5500/'' then Responds 25 opaque_response
        else if u = EXTERNAL_IP_URL then FetchNever
        else if u = ''https://example.com/'' then Responds 90 opaque_response
        else FetchRejects 12 (Error ''Failed to fetch'')),
      engine_message = engine_text\<rparr>"

definition scenario_offline :: env where
  "scenario_offline =
     \<lparr>protocol = ''http:'', onLine = False,
      network = (\<lambda>u opts. FetchRejects 5 (Error ''Failed to fetch'')),
      engine_message = engine_text\<rparr>"

text \<open>
  A page served over http whose outbound traffic is cut: port 5500 answers, every other
  request is refused.
\<close>

definition scenario_blocked :: env where
  "scenario_blocked =
     \<lparr>protocol = ''http:'', onLine = True,
      network = (\<lambda>u opts.
        if take 22 u = ''http://localhost:5500/'' then Responds 25 opaque_response
        else FetchRejects 12 (Error ''Failed to fetch'')),
      engine_message = engine_text\<rparr>"

text \<open>
  A page served over http, with a server on port 5500, whose IP service behaves as
  given; and some answers of that service: a body that never arrives, one that arrives
  after ten seconds, the JSON text \<open>null\<close>, an HTTP 500 with a JSON body that has no
  \<open>ip\<close>, and a body that is not JSON.
\<close>

definition ip_service :: "fetch_behaviour \<Rightarrow> env" where
  "ip_service b =
     \<lparr>protocol = ''http:'', onLine = True,
      network = (\<lambda>u opts.
        if u = EXTERNAL_IP_URL then b
        else if take 22 u = ''http://localhost:5500/'' then Responds 25 opaque_response
        else if u = ''https://example.com/'' then Responds 90 opaque_response
        else FetchRejects 12 (Error ''Failed to fetch'')),
      engine_message = engine_text\<rparr>"

definition stalled_response :: response where
  "stalled_response = \<lparr>status = 200, body = BodyNever\<rparr>"

definition slow_response :: response where
  "slow_response =
     \<lparr>status = 200, body = BodyParsed 10000 (JObj [(''ip'', JStr ''203.0.113.45'')])\<rparr>"

definition null_response :: response where
  "null_response = \<lparr>status = 200, body = BodyParsed 5 JNull\<rparr>"

definition error_response :: response where
  "error_response =
     \<lparr>status = 500, body = BodyParsed 5 (JObj [(''error'', JStr ''Internal Server Error'')])\<rparr>"

definition garbled_response :: response where
  "garbled_response = \<lparr>status = 200, body = BodyRejects 5 (Error ''Unexpected token'')\<rparr>"

text \<open>
  A page opened from disk on a network where no request is ever answered, and a
  configuration a caller following the specification might pass.
\<close>

definition scenario_silent :: env where
  "scenario_silent =
     \<lparr>protocol = ''file:'', onLine = True,
      network = (\<lambda>u opts. FetchNever),
      engine_message = engine_text\<rparr>"

definition custom_config :: config where
  "custom_config =
     \<lparr>localPorts = [9000], localPath = ''/health'',
      externalProbeUrl = ''https://ip.example.org/'',
      perPortTimeoutMs = 100, externalTimeoutMs = 100\<rparr>"





text \<open>
  A page opened from disk with no server on any port, whose IP service sends the
  headers of its response and then no body.
\<close>

definition scenario_file_stalled :: env where
  "scenario_file_stalled =
     \<lparr>protocol = ''file:'', onLine = True,
      network = (\<lambda>u opts.
        if u = EXTERNAL_IP_URL then Responds 100 stalled_response
        else FetchRejects 12 (Error ''Failed to fetch'')),
      engine_message = engine_text\<rparr>"

section \<open>Properties\<close>

subsection \<open>What each operation leaves alone\<close>

lemma the_panel_ensurePanel [simp]: "the_panel (ensurePanel s) = the_panel s"
  by (simp add: the_panel_def ensurePanel_def split: option.splits)

lemma shown_ensurePanel [simp]: "shown (ensurePanel s) = shown s"
  by (simp add: shown_def)

lemma buttons_ensurePanel [simp]: "buttons (ensurePanel s) = buttons s"
  by (simp add: buttons_def)

lemma now_ensurePanel [simp]: "now (ensurePanel s) = now s"
  by (simp add: ensurePanel_def split: option.splits)

lemma requests_ensurePanel [simp]: "requests (ensurePanel s) = requests s"
  by (simp add: ensurePanel_def split: option.splits)

lemma shown_addMessage [simp]: "shown (addMessage lv m s) = shown s @ [(lv, m)]"
  by (simp add: shown_def addMessage_def Let_def the_panel_def[of "_\<lparr>panel := _\<rparr>"])

lemma buttons_addMessage [simp]: "buttons (addMessage lv m s) = buttons s"
  by (simp add: buttons_def addMessage_def Let_def the_panel_def[of "_\<lparr>panel := _\<rparr>"])

lemma now_addMessage [simp]: "now (addMessage lv m s) = now s"
  by (simp add: addMessage_def Let_def)

lemma requests_addMessage [simp]: "requests (addMessage lv m s) = requests s"
  by (simp add: addMessage_def Let_def)

lemma shown_addActionButton [simp]: "shown (addActionButton a s) = shown s"
  by (simp add: shown_def addActionButton_def Let_def the_panel_def[of "_\<lparr>panel := _\<rparr>"])

lemma buttons_addActionButton [simp]: "buttons (addActionButton a s) = buttons s @ [a]"
  by (simp add: buttons_def addActionButton_def Let_def the_panel_def[of "_\<lparr>panel := _\<rparr>"])

lemma now_addActionButton [simp]: "now (addActionButton a s) = now s"
  by (simp add: addActionButton_def Let_def)

lemma requests_addActionButton [simp]: "requests (addActionButton a s) = requests s"
  by (simp add: addActionButton_def Let_def)

lemma shown_issue [simp]: "shown (issue u opts s) = shown s"
  by (simp add: shown_def issue_def the_panel_def)

lemma buttons_issue [simp]: "buttons (issue u opts s) = buttons s"
  by (simp add: buttons_def issue_def the_panel_def)

lemma shown_elapse [simp]: "shown (elapse d s) = shown s"
  by (simp add: shown_def elapse_def the_panel_def)

lemma buttons_elapse [simp]: "buttons (elapse d s) = buttons s"
  by (simp add: buttons_def elapse_def the_panel_def)

lemma requests_elapse [simp]: "requests (elapse d s) = requests s"
  by (simp add: elapse_def)

lemma now_elapse [simp]: "now (elapse d s) = now s + d"
  by (simp add: elapse_def)

lemma requests_issue [simp]:
  "requests (issue u opts s) = requests s @ [\<lparr>url = u, init = opts, issued_at = now s\<rparr>]"
  by (simp add: issue_def)

lemma now_issue [simp]: "now (issue u opts s) = now s"
  by (simp add: issue_def)

lemma race_bound: "snd (race t b) \<le> t"
  by (simp add: race_def split: fetch_behaviour.splits)

lemma fetchWithTimeout_frame:
  assumes "fetchWithTimeout e u t opts s = (st, s')"
  shows "shown s' = shown s" and "buttons s' = buttons s"
    and "requests s' = requests s @ [\<lparr>url = u, init = opts, issued_at = now s\<rparr>]"
    and "now s \<le> now s'" and "now s' \<le> now s + t"
    and "st = fst (race t (network e u opts))"
  using assms race_bound[of t "network e u opts"]
  by (auto simp: fetchWithTimeout_def split: prod.splits)

lemma probe_port_frame:
  assumes "probe_port e p s = (r, s')"
  shows "shown s' = shown s" and "buttons s' = buttons s"
    and "requests s' =
           requests s @ [\<lparr>url = local_url p (now s), init = local_init, issued_at = now s\<rparr>]"
    and "now s \<le> now s'" and "now s' \<le> now s + LOCAL_TIMEOUT"
    and "port r = p"
    and "r = local_result p (fst (race LOCAL_TIMEOUT (network e (local_url p (now s)) local_init)))"
proof -
  obtain st where f: "fetchWithTimeout e (local_url p (now s)) LOCAL_TIMEOUT local_init s = (st, s')"
    and r: "r = local_result p st"
    using assms by (auto simp: probe_port_def split: prod.splits)
  show "shown s' = shown s" "buttons s' = buttons s"
    "requests s' =
       requests s @ [\<lparr>url = local_url p (now s), init = local_init, issued_at = now s\<rparr>]"
    "now s \<le> now s'" "now s' \<le> now s + LOCAL_TIMEOUT"
    using fetchWithTimeout_frame[OF f] by simp_all
  show "port r = p"
    using r by (simp add: local_result_def split: sum.splits)
  show "r = local_result p (fst (race LOCAL_TIMEOUT (network e (local_url p (now s)) local_init)))"
    using r fetchWithTimeout_frame(6)[OF f] by simp
qed

lemma probe_ports_frame:
  "probe_ports e ps results s = (rs, s') \<Longrightarrow>
     shown s' = shown s \<and> buttons s' = buttons s \<and> now s \<le> now s' \<and>
     now s' \<le> now s + length ps * LOCAL_TIMEOUT"
proof (induction ps arbitrary: results s)
  case Nil
  then show ?case by simp
next
  case (Cons p ps)
  obtain r s1 where p: "probe_port e p s = (r, s1)"
    by (cases "probe_port e p s")
  with Cons.prems have rest: "probe_ports e ps (results @ [r]) s1 = (rs, s')"
    by simp
  show ?case
    using Cons.IH[OF rest] probe_port_frame(1,2,4,5)[OF p] by simp
qed

lemma probe_ports_results:
  "probe_ports e ps results s = (rs, s') \<Longrightarrow> map port rs = map port results @ ps"
proof (induction ps arbitrary: results s)
  case Nil
  then show ?case by simp
next
  case (Cons p ps)
  obtain r s1 where p: "probe_port e p s = (r, s1)"
    by (cases "probe_port e p s")
  with Cons.prems have rest: "probe_ports e ps (results @ [r]) s1 = (rs, s')"
    by simp
  show ?case
    using Cons.IH[OF rest] probe_port_frame(6)[OF p] by simp
qed

lemma probe_ports_requests:
  "probe_ports e ps results s = (rs, s') \<Longrightarrow>
     \<exists>reqs. requests s' = requests s @ reqs \<and>
       map init reqs = replicate (length ps) local_init"
proof (induction ps arbitrary: results s)
  case Nil
  then show ?case by simp
next
  case (Cons p ps)
  obtain r s1 where p: "probe_port e p s = (r, s1)"
    by (cases "probe_port e p s")
  with Cons.prems have rest: "probe_ports e ps (results @ [r]) s1 = (rs, s')"
    by simp
  let ?q = "\<lparr>url = local_url p (now s), init = local_init, issued_at = now s\<rparr>"
  have s1: "requests s1 = requests s @ [?q]"
    by (rule probe_port_frame(3)[OF p])
  from Cons.IH[OF rest] obtain reqs where t: "requests s' = requests s1 @ reqs"
    and d: "map init reqs = replicate (length ps) local_init"
    by blast
  have "requests s' = requests s @ (?q # reqs)"
    using t s1 by simp
  moreover have "map init (?q # reqs) = replicate (length (p # ps)) local_init"
    using d by simp
  ultimately show ?case by blast
qed

lemma checkFileProtocol_shown:
  "shown (checkFileProtocol e s) =
     shown s @ [if protocol e = ''file:'' then (Warn, PageLoadedViaFile)
                else (Info, PageOpenedOver (protocol e))]"
  by (simp add: checkFileProtocol_def)

lemma report_local_shown:
  "shown (report_local results s) =
     shown s @ [if list_ex ok results
                then (Info, LocalServerDetected (map port (filter ok results)))
                else (Warn, NoLocalServerDetected LOCAL_PORTS)]"
proof (cases "filter ok results")
  case Nil
  then have "\<not> list_ex ok results"
    by (simp add: list_ex_iff filter_empty_conv)
  with Nil show ?thesis by (simp add: report_local_def)
next
  case (Cons a as)
  then have "list_ex ok results"
    by (metis filter_empty_conv list.distinct(1) list_ex_iff)
  with Cons show ?thesis by (simp add: report_local_def)
qed

lemma checkLocalServers_shown:
  assumes "checkLocalServers e s = (results, s')"
  shows "shown s' =
     shown s @ [(Info, CheckingLocalServers LOCAL_PORTS),
                if list_ex ok results
                then (Info, LocalServerDetected (map port (filter ok results)))
                else (Warn, NoLocalServerDetected LOCAL_PORTS)]"
proof -
  obtain s2 where p: "probe_ports e LOCAL_PORTS [] (addMessage Info (CheckingLocalServers LOCAL_PORTS) s)
      = (results, s2)" and s': "s' = report_local results s2"
    using assms by (auto simp: checkLocalServers_def Let_def split: prod.splits)
  from probe_ports_frame[OF p] have "shown s2 = shown s @ [(Info, CheckingLocalServers LOCAL_PORTS)]"
    by simp
  then show ?thesis
    unfolding s' report_local_shown by simp
qed

lemma external_catch_shown:
  "external_catch err s = (r, s') \<Longrightarrow>
     shown s' = shown s @ [(Warn, UnableToFetchExternalIP)] \<and>
     r = \<lparr>ext_ok = False, ip = None, error = Some (message err)\<rparr> \<and>
     requests s' = requests s \<and> now s' = now s"
  by (auto simp: external_catch_def)

lemma external_try_shown:
  "external_try e j s = (r, s') \<Longrightarrow>
     shown s' = shown s @ [if ext_ok r then (Info, ExternalOK (ip r)) else (Warn, UnableToFetchExternalIP)]
     \<and> requests s' = requests s \<and> now s' = now s"
  by (cases "read_ip e j"; cases "renders_value (projr (read_ip e j))")
     (auto simp: external_try_def external_catch_def)

lemma checkExternalConnectivity_shown:
  assumes "checkExternalConnectivity e s = Returns r s'"
  shows "shown s' =
     shown s @ [(Info, CheckingExternal),
                if ext_ok r then (Info, ExternalOK (ip r)) else (Warn, UnableToFetchExternalIP)]"
proof -
  obtain st s2 where f: "fetchWithTimeout e EXTERNAL_IP_URL EXTERNAL_TIMEOUT external_init
      (addMessage Info CheckingExternal s) = (st, s2)"
    by (cases "fetchWithTimeout e EXTERNAL_IP_URL EXTERNAL_TIMEOUT external_init
      (addMessage Info CheckingExternal s)")
  have s2: "shown s2 = shown s @ [(Info, CheckingExternal)]"
    using fetchWithTimeout_frame(1)[OF f] by simp
  show ?thesis
  proof (cases st)
    case (Inl err)
    with assms f have "external_catch err s2 = (r, s')"
      by (auto simp: checkExternalConnectivity_def Let_def split: prod.splits)
    from external_catch_shown[OF this] s2 show ?thesis by simp
  next
    case (Inr res)
    show ?thesis
    proof (cases "body res")
      case (BodyParsed d j)
      with assms f Inr have "external_try e j (elapse d s2) = (r, s')"
        by (auto simp: checkExternalConnectivity_def Let_def split: prod.splits)
      from external_try_shown[OF this] s2 show ?thesis by simp
    next
      case (BodyRejects d err)
      with assms f Inr have "external_catch err (elapse d s2) = (r, s')"
        by (auto simp: checkExternalConnectivity_def Let_def split: prod.splits)
      from external_catch_shown[OF this] s2 show ?thesis by simp
    next
      case BodyNever
      with assms f Inr show ?thesis
        by (simp add: checkExternalConnectivity_def Let_def)
    qed
  qed
qed

lemma checkNetworkAdapter_shown:
  assumes "checkNetworkAdapter e s = (n, s')"
  shows "shown s' =
     shown s @ (if \<not> online n then [(Err, NetworkAppearsOffline)]
                else if check n = Some ''ok'' then [(Info, NetworkAdapterOnline)]
                else [(Info, NetworkAdapterOnline), (Warn, ConnectivityTestFailed)])"
proof (cases "onLine e")
  case False
  with assms show ?thesis by (auto simp: checkNetworkAdapter_def)
next
  case True
  obtain st s2 where f: "fetchWithTimeout e ''https://example.com/'' 3000 adapter_init
      (addMessage Info NetworkAdapterOnline s) = (st, s2)"
    by (cases "fetchWithTimeout e ''https://example.com/'' 3000 adapter_init
      (addMessage Info NetworkAdapterOnline s)")
  have s2: "shown s2 = shown s @ [(Info, NetworkAdapterOnline)]"
    using fetchWithTimeout_frame(1)[OF f] by simp
  from assms True f s2 show ?thesis
    by (cases st) (auto simp: checkNetworkAdapter_def Let_def)
qed

lemma probe_ports_prefix:
  "probe_ports e ps results s = (rs, s') \<Longrightarrow> take (length results) rs = results"
proof (induction ps arbitrary: results s)
  case Nil
  then show ?case by simp
next
  case (Cons p ps)
  obtain r s1 where p: "probe_port e p s = (r, s1)"
    by (cases "probe_port e p s")
  with Cons.prems have rest: "probe_ports e ps (results @ [r]) s1 = (rs, s')"
    by simp
  from Cons.IH[OF rest] have "take (length results) (take (length (results @ [r])) rs) = results"
    by simp
  then show ?case by (simp add: min_def)
qed

lemma heuristic_summaries_shown:
  "shown (heuristic_summaries e lr ext net s) = shown s @ summary_rows e lr ext net"
  by (simp add: heuristic_summaries_def summary_rows_def Let_def)

lemma heuristic_summaries_buttons:
  "buttons (heuristic_summaries e lr ext net s) = buttons s @ [CopyChecklist, RunChecksAgain]"
  by (simp add: heuristic_summaries_def Let_def)

lemma returned_Some: "returned c = Some x \<Longrightarrow> c = Returns x (final c)"
  by (cases c) simp_all

lemma returned_None: "returned c = None \<Longrightarrow> c = Never_returns (final c)"
  by (cases c) simp_all

lemma run_checks_shown:
  assumes "run_checks e s = Returns (lr, ext, net) s1"
  shows "shown s1 = shown s @ check_rows e lr ext net"
proof -
  let ?s2 = "checkFileProtocol e (addMessage Info StartingDiagnostics (ensurePanel s))"
  obtain lr' s3 where l: "checkLocalServers e ?s2 = (lr', s3)"
    by (cases "checkLocalServers e ?s2")
  obtain ext' s4 where x: "checkExternalConnectivity e s3 = Returns ext' s4"
    using assms l by (cases "checkExternalConnectivity e s3") (simp_all add: run_checks_def)
  obtain net' s5 where n: "checkNetworkAdapter e s4 = (net', s5)"
    by (cases "checkNetworkAdapter e s4")
  have eq: "lr' = lr" "ext' = ext" "net' = net" "s5 = s1"
    using assms l x n by (simp_all add: run_checks_def)
  have "shown ?s2 = shown s @ [(Info, StartingDiagnostics), protocol_row e]"
    by (simp add: checkFileProtocol_shown protocol_row_def)
  moreover have "shown s3 = shown ?s2 @ [(Info, CheckingLocalServers LOCAL_PORTS), local_row lr']"
    using checkLocalServers_shown[OF l] by (simp add: local_row_def)
  moreover have "shown s4 = shown s3 @ [(Info, CheckingExternal), external_row ext']"
    using checkExternalConnectivity_shown[OF x] by (simp add: external_row_def)
  moreover have "shown s5 = shown s4 @ adapter_rows net'"
    using checkNetworkAdapter_shown[OF n] by (simp add: adapter_rows_def)
  ultimately show ?thesis
    unfolding eq[symmetric] by (simp add: check_rows_def)
qed

lemma checkExternalConnectivity_stuck:
  assumes "checkExternalConnectivity e s = Never_returns w"
  shows "shown w = shown s @ [(Info, CheckingExternal)]"
proof -
  obtain st s2 where f: "fetchWithTimeout e EXTERNAL_IP_URL EXTERNAL_TIMEOUT external_init
      (addMessage Info CheckingExternal s) = (st, s2)"
    by (cases "fetchWithTimeout e EXTERNAL_IP_URL EXTERNAL_TIMEOUT external_init
      (addMessage Info CheckingExternal s)")
  have s2: "shown s2 = shown s @ [(Info, CheckingExternal)]"
    using fetchWithTimeout_frame(1)[OF f] by simp
  have "w = s2"
    using assms f
    by (auto simp: checkExternalConnectivity_def Let_def
        split: sum.splits body_behaviour.splits prod.splits)
  with s2 show ?thesis by simp
qed

lemma run_checks_stuck_shown:
  assumes "run_checks e s = Never_returns w"
  shows "\<exists>lr. shown w = shown s @ [(Info, StartingDiagnostics), protocol_row e,
           (Info, CheckingLocalServers LOCAL_PORTS), local_row lr, (Info, CheckingExternal)]"
proof -
  let ?s2 = "checkFileProtocol e (addMessage Info StartingDiagnostics (ensurePanel s))"
  obtain lr s3 where l: "checkLocalServers e ?s2 = (lr, s3)"
    by (cases "checkLocalServers e ?s2")
  have x: "checkExternalConnectivity e s3 = Never_returns w"
    using assms l
    by (cases "checkExternalConnectivity e s3")
       (simp_all add: run_checks_def split: prod.splits)
  have "shown ?s2 = shown s @ [(Info, StartingDiagnostics), protocol_row e]"
    by (simp add: checkFileProtocol_shown protocol_row_def)
  moreover have "shown s3 = shown ?s2 @ [(Info, CheckingLocalServers LOCAL_PORTS), local_row lr]"
    using checkLocalServers_shown[OF l] by (simp add: local_row_def)
  moreover have "shown w = shown s3 @ [(Info, CheckingExternal)]"
    by (rule checkExternalConnectivity_stuck[OF x])
  ultimately have "shown w = shown s @ [(Info, StartingDiagnostics), protocol_row e,
           (Info, CheckingLocalServers LOCAL_PORTS), local_row lr, (Info, CheckingExternal)]"
    by simp
  then show ?thesis ..
qed

lemma runAllChecks_returned:
  assumes "returned (run_checks e s) = Some (lr, ext, net)"
  shows "runAllChecks e s =
           Returns () (heuristic_summaries e lr ext net (final (run_checks e s)))"
  using assms by (cases "run_checks e s") (simp_all add: runAllChecks_def)

lemma runAllChecks_emitted:
  assumes "returned (run_checks e s) = Some (lr, ext, net)"
  shows "emitted s (final (runAllChecks e s)) = check_rows e lr ext net @ summary_rows e lr ext net"
proof -
  have "shown (final (run_checks e s)) = shown s @ check_rows e lr ext net"
    using run_checks_shown[OF returned_Some[OF assms]] .
  then show ?thesis
    by (simp add: runAllChecks_returned[OF assms] heuristic_summaries_shown emitted_def)
qed

lemma runAllChecks_stuck:
  assumes "returned (run_checks e s) = None"
  shows "runAllChecks e s = Never_returns (final (run_checks e s))"
  using assms by (cases "run_checks e s") (simp_all add: runAllChecks_def)

lemma runAllChecks_stuck_emitted:
  assumes "returned (run_checks e s) = None"
  shows "\<exists>lr. emitted s (final (runAllChecks e s)) = [(Info, StartingDiagnostics), protocol_row e,
           (Info, CheckingLocalServers LOCAL_PORTS), local_row lr, (Info, CheckingExternal)]"
proof -
  from run_checks_stuck_shown[OF returned_None[OF assms]] obtain lr where
    "shown (final (run_checks e s)) = shown s @ [(Info, StartingDiagnostics), protocol_row e,
           (Info, CheckingLocalServers LOCAL_PORTS), local_row lr, (Info, CheckingExternal)]"
    by blast
  then have "emitted s (final (runAllChecks e s)) = [(Info, StartingDiagnostics), protocol_row e,
           (Info, CheckingLocalServers LOCAL_PORTS), local_row lr, (Info, CheckingExternal)]"
    by (simp add: runAllChecks_stuck[OF assms] emitted_def)
  then show ?thesis ..
qed

lemma likely_not_check_row: "LikelyCauseFileNoServer \<notin> snd ` set (check_rows e lr ext net)"
  by (simp add: check_rows_def protocol_row_def local_row_def external_row_def adapter_rows_def)

lemma pattern_not_check_row: "PatternLocalOkExternalFails \<notin> snd ` set (check_rows e lr ext net)"
  by (simp add: check_rows_def protocol_row_def local_row_def external_row_def adapter_rows_def)

lemma likely_summary_row:
  "LikelyCauseFileNoServer \<in> snd ` set (summary_rows e lr ext net) \<longleftrightarrow>
     protocol e = ''file:'' \<and> list_all (\<lambda>r. \<not> ok r) lr"
  by (auto simp: summary_rows_def)

lemma pattern_summary_row:
  "PatternLocalOkExternalFails \<in> snd ` set (summary_rows e lr ext net) \<longleftrightarrow>
     \<not> ext_ok ext \<and> list_ex (\<lambda>r. ok r) lr"
  by (auto simp: summary_rows_def)


lemma race_times_out: "times_out t b \<Longrightarrow> race t b = (Inl (Error ''timeout''), t)"
  by (cases b) (simp_all add: times_out_def race_def)

lemma race_responds: "responds_within t b \<Longrightarrow> \<exists>res. fst (race t b) = Inr res"
  by (cases b) (simp_all add: responds_within_def race_def)

lemma run_checks_unfold:
  "run_checks e s =
     (case checkExternalConnectivity e
             (snd (checkLocalServers e
                (checkFileProtocol e (addMessage Info StartingDiagnostics (ensurePanel s))))) of
        Never_returns w \<Rightarrow> Never_returns w
      | Returns external s4 \<Rightarrow>
          Returns (fst (checkLocalServers e
                     (checkFileProtocol e (addMessage Info StartingDiagnostics (ensurePanel s)))),
                   external, fst (checkNetworkAdapter e s4))
            (snd (checkNetworkAdapter e s4)))"
  by (simp add: run_checks_def Let_def split_def split: completion.splits)

lemma checkExternalConnectivity_rejected:
  assumes "fst (race EXTERNAL_TIMEOUT (network e EXTERNAL_IP_URL external_init)) = Inl err"
  shows "returned (checkExternalConnectivity e s) =
           Some \<lparr>ext_ok = False, ip = None, error = Some (message err)\<rparr>"
  using assms
  by (simp add: checkExternalConnectivity_def fetchWithTimeout_def external_catch_def
      Let_def split_def)

lemma checkExternalConnectivity_body_rejected:
  assumes "fst (race EXTERNAL_TIMEOUT (network e EXTERNAL_IP_URL external_init)) = Inr res"
    and "body res = BodyRejects d err"
  shows "returned (checkExternalConnectivity e s) =
           Some \<lparr>ext_ok = False, ip = None, error = Some (message err)\<rparr>"
  using assms
  by (simp add: checkExternalConnectivity_def fetchWithTimeout_def external_catch_def
      Let_def split_def)

lemma checkExternalConnectivity_parsed:
  assumes "fst (race EXTERNAL_TIMEOUT (network e EXTERNAL_IP_URL external_init)) = Inr res"
    and "body res = BodyParsed d j"
  shows "returned (checkExternalConnectivity e s) = Some (fst (external_try e j s))"
proof -
  have "fst (external_try e j s') = fst (external_try e j s)" for s'
    by (simp add: external_try_def external_catch_def split: sum.splits)
  then show ?thesis
    using assms
    by (simp add: checkExternalConnectivity_def fetchWithTimeout_def Let_def split_def)
qed

lemma checkExternalConnectivity_never:
  assumes "fst (race EXTERNAL_TIMEOUT (network e EXTERNAL_IP_URL external_init)) = Inr res"
    and "body res = BodyNever"
  shows "returned (checkExternalConnectivity e s) = None"
  using assms
  by (simp add: checkExternalConnectivity_def fetchWithTimeout_def Let_def split_def)

lemma run_checks_returned:
  assumes "returned (checkExternalConnectivity e
             (snd (checkLocalServers e
                (checkFileProtocol e (addMessage Info StartingDiagnostics (ensurePanel s)))))) = Some ext"
  shows "\<exists>lr net. returned (run_checks e s) = Some (lr, ext, net) \<and>
           lr = fst (checkLocalServers e
                (checkFileProtocol e (addMessage Info StartingDiagnostics (ensurePanel s))))"
proof -
  let ?s3 = "snd (checkLocalServers e
                (checkFileProtocol e (addMessage Info StartingDiagnostics (ensurePanel s))))"
  from assms obtain s4 where "checkExternalConnectivity e ?s3 = Returns ext s4"
    by (cases "checkExternalConnectivity e ?s3") simp_all
  then show ?thesis
    by (simp add: run_checks_unfold)
qed

lemma checkLocalServers_first:
  "\<exists>rest. fst (checkLocalServers e s) =
     local_result 5500 (fst (race LOCAL_TIMEOUT (network e (local_url 5500 (now s)) local_init)))
       # rest"
proof -
  let ?s1 = "addMessage Info (CheckingLocalServers LOCAL_PORTS) s"
  obtain r s' where p: "probe_port e 5500 ?s1 = (r, s')"
    by (cases "probe_port e 5500 ?s1")
  obtain rs s'' where q: "probe_ports e [3000, 8080] [r] s' = (rs, s'')"
    by (cases "probe_ports e [3000, 8080] [r] s'")
  have "take 1 rs = [r]"
    using probe_ports_prefix[OF q] by simp
  then obtain rest where "rs = r # rest"
    by (cases rs) simp_all
  moreover have "fst (checkLocalServers e s) = rs"
    using p q by (simp add: checkLocalServers_def LOCAL_PORTS_def Let_def)
  moreover have "r = local_result 5500
      (fst (race LOCAL_TIMEOUT (network e (local_url 5500 (now s)) local_init)))"
    using probe_port_frame(7)[OF p] by simp
  ultimately show ?thesis by simp
qed

lemma scenario_served_blocked:
  assumes "responds_within LOCAL_TIMEOUT (network e (local_url 5500 (now s)) local_init)"
    and "times_out EXTERNAL_TIMEOUT (network e EXTERNAL_IP_URL external_init)"
  shows "\<exists>lr ext net. returned (run_checks e s) = Some (lr, ext, net) \<and>
           list_ex ok lr \<and> \<not> ext_ok ext"
proof -
  let ?s2 = "checkFileProtocol e (addMessage Info StartingDiagnostics (ensurePanel s))"
  have now: "now ?s2 = now s"
    by (simp add: checkFileProtocol_def)
  from race_responds[OF assms(1)] obtain res where
    "fst (race LOCAL_TIMEOUT (network e (local_url 5500 (now s)) local_init)) = Inr res" ..
  with checkLocalServers_first[of e ?s2] now obtain rest where
    lr: "fst (checkLocalServers e ?s2) = local_result 5500 (Inr res) # rest"
    by auto
  have "fst (race EXTERNAL_TIMEOUT (network e EXTERNAL_IP_URL external_init)) = Inl (Error ''timeout'')"
    using race_times_out[OF assms(2)] by simp
  from checkExternalConnectivity_rejected[OF this]
  have "returned (checkExternalConnectivity e (snd (checkLocalServers e ?s2))) =
      Some \<lparr>ext_ok = False, ip = None, error = Some ''timeout''\<rparr>"
    by simp
  from run_checks_returned[OF this] obtain lr' net where
    "returned (run_checks e s) =
       Some (lr', \<lparr>ext_ok = False, ip = None, error = Some ''timeout''\<rparr>, net)"
    "lr' = fst (checkLocalServers e ?s2)"
    by blast
  moreover have "list_ex ok (local_result 5500 (Inr res) # rest)"
    by (simp add: local_result_def)
  ultimately show ?thesis
    using lr by (intro exI[of _ lr'] exI[of _ "\<lparr>ext_ok = False, ip = None, error = Some ''timeout''\<rparr>"]
        exI[of _ net]) simp
qed

subsection \<open>The scenarios, evaluated\<close>

lemmas model_defs =
  run_checks_def runAllChecks_def heuristic_summaries_def checkLocalServers_def
  checkExternalConnectivity_def checkNetworkAdapter_def checkFileProtocol_def
  probe_port_def fetchWithTimeout_def race_def local_result_def report_local_def
  external_try_def external_catch_def read_ip_def renders_value_def
  LOCAL_PORTS_def LOCAL_PATH_def LOCAL_TIMEOUT_def EXTERNAL_TIMEOUT_def EXTERNAL_IP_URL_def
  local_url_def local_init_def external_init_def adapter_init_def emitted_def
  ip_response_def opaque_response_def Let_def

lemma page_load_simps [simp]:
  "now page_load = 1000" "requests page_load = []" "shown page_load = []" "buttons page_load = []"
  by (simp_all add: page_load_def shown_def buttons_def the_panel_def)

lemma number_to_string_ports:
  "number_to_string 5500 = ''5500''" "number_to_string 3000 = ''3000''"
  "number_to_string 8080 = ''8080''"
  by (simp_all add: number_to_string.simps)

lemma scenario_file_checks:
  "returned (run_checks scenario_file page_load) = Some
    ([\<lparr>port = 5500, ok = False, info = Some ''Failed to fetch''\<rparr>,
      \<lparr>port = 3000, ok = False, info = Some ''Failed to fetch''\<rparr>,
      \<lparr>port = 8080, ok = False, info = Some ''Failed to fetch''\<rparr>],
     \<lparr>ext_ok = True, ip = Some (JStr ''203.0.113.45''), error = None\<rparr>,
     \<lparr>online = True, check = Some ''ok''\<rparr>)"
  by (simp add: model_defs scenario_file_def)

lemma scenario_file_emitted:
  "emitted page_load (final (runAllChecks scenario_file page_load)) =
     [(Info, StartingDiagnostics), (Warn, PageLoadedViaFile),
      (Info, CheckingLocalServers [5500, 3000, 8080]),
      (Warn, NoLocalServerDetected [5500, 3000, 8080]),
      (Info, CheckingExternal), (Info, ExternalOK (Some (JStr ''203.0.113.45''))),
      (Info, NetworkAdapterOnline), (Warn, LikelyCauseFileNoServer)]"
  by (simp add: model_defs scenario_file_def)

lemma scenario_http_checks:
  "returned (run_checks scenario_http page_load) = Some
    ([\<lparr>port = 5500, ok = True, info = None\<rparr>,
      \<lparr>port = 3000, ok = False, info = Some ''Failed to fetch''\<rparr>,
      \<lparr>port = 8080, ok = False, info = Some ''Failed to fetch''\<rparr>],
     \<lparr>ext_ok = False, ip = None, error = Some ''timeout''\<rparr>,
     \<lparr>online = True, check = Some ''ok''\<rparr>)"
  by (simp add: model_defs scenario_http_def number_to_string_ports)

lemma scenario_http_emitted:
  "emitted page_load (final (runAllChecks scenario_http page_load)) =
     [(Info, StartingDiagnostics), (Info, PageOpenedOver ''http:''),
      (Info, CheckingLocalServers [5500, 3000, 8080]),
      (Info, LocalServerDetected [5500]), (Info, CheckingExternal),
      (Warn, UnableToFetchExternalIP), (Info, NetworkAdapterOnline),
      (Warn, PatternLocalOkExternalFails)]"
  by (simp add: model_defs scenario_http_def number_to_string_ports)

lemma scenario_stalled_checks:
  "returned (run_checks (ip_service (Responds 100 stalled_response)) page_load) = None"
  by (simp add: model_defs ip_service_def stalled_response_def number_to_string_ports)

subsection \<open>The heuristic findings\<close>

text \<open>
  Claim C10. No run adds both the row 'Likely cause: file:// + no dev server' and the
  row 'Pattern: local server OK but external fetch fails': the first needs every entry
  of \<open>localResults\<close> to have \<open>ok\<close> false, the second needs one with \<open>ok\<close> true. This
  holds for every page, network and starting document, also for a run that never
  returns.
\<close>

theorem findings_exclusive:
  "\<not> (LikelyCauseFileNoServer \<in> snd ` set (emitted s (final (runAllChecks e s))) \<and>
       PatternLocalOkExternalFails \<in> snd ` set (emitted s (final (runAllChecks e s))))"
proof (cases "returned (run_checks e s)")
  case None
  from runAllChecks_stuck_emitted[OF None] obtain lr where
    "emitted s (final (runAllChecks e s)) = [(Info, StartingDiagnostics), protocol_row e,
           (Info, CheckingLocalServers LOCAL_PORTS), local_row lr, (Info, CheckingExternal)]"
    by blast
  then show ?thesis
    by (simp add: protocol_row_def local_row_def)
next
  case (Some x)
  obtain lr ext net where x: "x = (lr, ext, net)"
    by (cases x)
  have r: "returned (run_checks e s) = Some (lr, ext, net)"
    using Some x by simp
  have "\<not> (list_all (\<lambda>r. \<not> ok r) lr \<and> list_ex (\<lambda>r. ok r) lr)"
    by (auto simp: list_all_iff list_ex_iff)
  then show ?thesis
    by (auto simp: runAllChecks_emitted[OF r] image_Un likely_not_check_row pattern_not_check_row
        likely_summary_row pattern_summary_row)
qed

theorem findings_exclusive_witness:
  "LikelyCauseFileNoServer \<in> snd ` set (emitted page_load (final (runAllChecks scenario_file page_load))) \<and>
   PatternLocalOkExternalFails \<notin> snd ` set (emitted page_load (final (runAllChecks scenario_file page_load))) \<and>
   PatternLocalOkExternalFails \<in> snd ` set (emitted page_load (final (runAllChecks scenario_http page_load))) \<and>
   LikelyCauseFileNoServer \<notin> snd ` set (emitted page_load (final (runAllChecks scenario_http page_load)))"
proof -
  have a: "LikelyCauseFileNoServer \<in>
      snd ` set (emitted page_load (final (runAllChecks scenario_file page_load)))"
    by (simp add: scenario_file_emitted)
  have b: "PatternLocalOkExternalFails \<in>
      snd ` set (emitted page_load (final (runAllChecks scenario_http page_load)))"
    by (simp add: scenario_http_emitted)
  show ?thesis
    using a b findings_exclusive[of page_load scenario_file]
      findings_exclusive[of page_load scenario_http]
    by blast
qed

text \<open>
  Claim C4. In every run whose external check returned \<open>ok: false\<close> while some entry of
  \<open>localResults\<close> has \<open>ok\<close> true, the row 'Pattern: local server OK but external fetch
  fails' is added. In particular, when port 5500 answers within its timeout and the
  external request times out, the run returns, adds that row and does not add the
  file-origin row, whatever the protocol and the adapter say (the scenario of the
  specification has \<open>http:\<close> and an adapter that is online).
\<close>

theorem blocked_finding_emitted:
  "(returned (run_checks e s) = Some (localResults, external, net) \<and>
      \<not> ext_ok external \<and> list_ex ok localResults \<longrightarrow>
      PatternLocalOkExternalFails \<in> snd ` set (emitted s (final (runAllChecks e s)))) \<and>
   (responds_within LOCAL_TIMEOUT (network e (local_url 5500 (now s)) local_init) \<and>
      times_out EXTERNAL_TIMEOUT (network e EXTERNAL_IP_URL external_init) \<longrightarrow>
      returned (runAllChecks e s) = Some () \<and>
      PatternLocalOkExternalFails \<in> snd ` set (emitted s (final (runAllChecks e s))) \<and>
      LikelyCauseFileNoServer \<notin> snd ` set (emitted s (final (runAllChecks e s))))"
proof (intro conjI impI)
  assume a: "returned (run_checks e s) = Some (localResults, external, net) \<and>
      \<not> ext_ok external \<and> list_ex ok localResults"
  then have r: "returned (run_checks e s) = Some (localResults, external, net)"
    by simp
  show "PatternLocalOkExternalFails \<in> snd ` set (emitted s (final (runAllChecks e s)))"
    using a by (simp add: runAllChecks_emitted[OF r] image_Un pattern_summary_row)
next
  assume a: "responds_within LOCAL_TIMEOUT (network e (local_url 5500 (now s)) local_init) \<and>
      times_out EXTERNAL_TIMEOUT (network e EXTERNAL_IP_URL external_init)"
  then obtain lr ext net where r: "returned (run_checks e s) = Some (lr, ext, net)"
    and up: "list_ex ok lr" and x: "\<not> ext_ok ext"
    using scenario_served_blocked[of e s] by blast
  show "returned (runAllChecks e s) = Some ()"
    by (simp add: runAllChecks_returned[OF r])
  show "PatternLocalOkExternalFails \<in> snd ` set (emitted s (final (runAllChecks e s)))"
    using up x by (simp add: runAllChecks_emitted[OF r] image_Un pattern_summary_row)
  have "\<not> list_all (\<lambda>r. \<not> ok r) lr"
    using up by (auto simp: list_all_iff list_ex_iff)
  then show "LikelyCauseFileNoServer \<notin> snd ` set (emitted s (final (runAllChecks e s)))"
    by (simp add: runAllChecks_emitted[OF r] image_Un likely_not_check_row likely_summary_row)
qed

lemma scenario_http_network:
  "responds_within LOCAL_TIMEOUT (network scenario_http (local_url 5500 (now page_load)) local_init)"
  "times_out EXTERNAL_TIMEOUT (network scenario_http EXTERNAL_IP_URL external_init)"
  "protocol scenario_http = ''http:''" "onLine scenario_http"
  by (simp_all add: scenario_http_def responds_within_def times_out_def local_url_def
      LOCAL_PATH_def LOCAL_TIMEOUT_def EXTERNAL_IP_URL_def number_to_string_ports)

theorem blocked_finding_emitted_witness:
  "returned (run_checks scenario_http page_load) = Some
    ([\<lparr>port = 5500, ok = True, info = None\<rparr>,
      \<lparr>port = 3000, ok = False, info = Some ''Failed to fetch''\<rparr>,
      \<lparr>port = 8080, ok = False, info = Some ''Failed to fetch''\<rparr>],
     \<lparr>ext_ok = False, ip = None, error = Some ''timeout''\<rparr>,
     \<lparr>online = True, check = Some ''ok''\<rparr>) \<and>
   protocol scenario_http = ''http:'' \<and> onLine scenario_http \<and>
   responds_within LOCAL_TIMEOUT (network scenario_http (local_url 5500 (now page_load)) local_init) \<and>
   times_out EXTERNAL_TIMEOUT (network scenario_http EXTERNAL_IP_URL external_init) \<and>
   returned (runAllChecks scenario_http page_load) = Some () \<and>
   PatternLocalOkExternalFails \<in> snd ` set (emitted page_load (final (runAllChecks scenario_http page_load))) \<and>
   LikelyCauseFileNoServer \<notin> snd ` set (emitted page_load (final (runAllChecks scenario_http page_load)))"
proof -
  have general: "PatternLocalOkExternalFails \<in>
      snd ` set (emitted page_load (final (runAllChecks scenario_http page_load)))"
    using blocked_finding_emitted[of scenario_http page_load
        "[\<lparr>port = 5500, ok = True, info = None\<rparr>,
          \<lparr>port = 3000, ok = False, info = Some ''Failed to fetch''\<rparr>,
          \<lparr>port = 8080, ok = False, info = Some ''Failed to fetch''\<rparr>]"
        "\<lparr>ext_ok = False, ip = None, error = Some ''timeout''\<rparr>"
        "\<lparr>online = True, check = Some ''ok''\<rparr>", THEN conjunct1]
      scenario_http_checks
    by simp
  show ?thesis
    using general blocked_finding_emitted[of scenario_http page_load, THEN conjunct2]
      scenario_http_network scenario_http_checks
    by simp
qed

subsection \<open>The network adapter check\<close>

text \<open>
  Claim C5. When \<open>navigator.onLine\<close> is false, \<open>checkNetworkAdapter\<close> returns
  \<open>{online: false}\<close> and issues no request. When it is true, the check issues exactly
  one request (HEAD, no-cors, to example.com), its result has \<open>online\<close> true whatever
  the request did, and \<open>check\<close> is 'failed' when the request was rejected or timed out
  and 'ok' otherwise.
\<close>

theorem adapter_check:
  "(\<not> onLine e \<longrightarrow>
      fst (checkNetworkAdapter e s) = \<lparr>online = False, check = None\<rparr> \<and>
      requests (snd (checkNetworkAdapter e s)) = requests s) \<and>
   (onLine e \<longrightarrow>
      requests (snd (checkNetworkAdapter e s)) =
        requests s @ [\<lparr>url = ''https://example.com/'', init = adapter_init, issued_at = now s\<rparr>] \<and>
      online (fst (checkNetworkAdapter e s)) \<and>
      check (fst (checkNetworkAdapter e s)) =
        (case fst (race 3000 (network e ''https://example.com/'' adapter_init)) of
           Inl err \<Rightarrow> Some ''failed'' | Inr res \<Rightarrow> Some ''ok''))"
  by (simp add: checkNetworkAdapter_def fetchWithTimeout_def Let_def split_def split: sum.splits)

theorem adapter_check_witness:
  "\<not> onLine scenario_offline \<and>
   fst (checkNetworkAdapter scenario_offline page_load) = \<lparr>online = False, check = None\<rparr> \<and>
   requests (snd (checkNetworkAdapter scenario_offline page_load)) = [] \<and>
   onLine scenario_blocked \<and>
   fst (checkNetworkAdapter scenario_blocked page_load) = \<lparr>online = True, check = Some ''failed''\<rparr> \<and>
   requests (snd (checkNetworkAdapter scenario_blocked page_load)) =
     [\<lparr>url = ''https://example.com/'', init = adapter_init, issued_at = 1000\<rparr>]"
proof -
  have off: "\<not> onLine scenario_offline"
    by (simp add: scenario_offline_def)
  have on: "onLine scenario_blocked"
    by (simp add: scenario_blocked_def)
  have probe: "fst (race 3000 (network scenario_blocked ''https://example.com/'' adapter_init)) =
      Inl (Error ''Failed to fetch'')"
    by (simp add: scenario_blocked_def race_def)
  have "online (fst (checkNetworkAdapter scenario_blocked page_load)) \<and>
      check (fst (checkNetworkAdapter scenario_blocked page_load)) = Some ''failed''"
    using adapter_check[of scenario_blocked page_load] on probe by simp
  then have "fst (checkNetworkAdapter scenario_blocked page_load) =
      \<lparr>online = True, check = Some ''failed''\<rparr>"
    by (cases "fst (checkNetworkAdapter scenario_blocked page_load)") simp
  then show ?thesis
    using adapter_check[of scenario_offline page_load] adapter_check[of scenario_blocked page_load]
      off on
    by simp
qed

subsection \<open>The external connectivity check\<close>

lemma external_try_parsed:
  assumes "read_ip e j = Inr v" and "renders_value v"
  shows "fst (external_try e j s) = \<lparr>ext_ok = True, ip = v, error = None\<rparr>"
  using assms by (simp add: external_try_def)

lemma external_try_null:
  "fst (external_try e JNull s) =
     \<lparr>ext_ok = False, ip = None, error = Some (engine_message e ReadPropertyOfNull)\<rparr>"
  by (simp add: external_try_def read_ip_def external_catch_def)

lemma external_try_unrendered:
  assumes "read_ip e j = Inr v" and "\<not> renders_value v"
  shows "fst (external_try e j s) =
     \<lparr>ext_ok = False, ip = None, error = Some (engine_message e ConvertToPrimitive)\<rparr>"
  using assms by (simp add: external_try_def external_catch_def)

lemma read_ip_cases: "(j = JNull \<and> read_ip e j = Inl (Error (engine_message e ReadPropertyOfNull))) \<or>
    (j \<noteq> JNull \<and> (\<exists>v. read_ip e j = Inr v))"
  by (cases j) (simp_all add: read_ip_def)

lemma race_with_status:
  "fst (race t (network (with_status n e) u opts)) =
     map_sum id (\<lambda>res. res\<lparr>status := n\<rparr>) (fst (race t (network e u opts)))"
  by (cases "network e u opts") (simp_all add: with_status_def race_def)

lemma returned_external_cases:
  "returned (checkExternalConnectivity e s) =
     (case fst (race EXTERNAL_TIMEOUT (network e EXTERNAL_IP_URL external_init)) of
        Inl err \<Rightarrow> Some \<lparr>ext_ok = False, ip = None, error = Some (message err)\<rparr>
      | Inr res \<Rightarrow>
          (case body res of
             BodyParsed d j \<Rightarrow> Some (fst (external_try e j s))
           | BodyRejects d err \<Rightarrow> Some \<lparr>ext_ok = False, ip = None, error = Some (message err)\<rparr>
           | BodyNever \<Rightarrow> None))"
proof (cases "fst (race EXTERNAL_TIMEOUT (network e EXTERNAL_IP_URL external_init))")
  case (Inl err)
  then show ?thesis
    by (simp add: checkExternalConnectivity_rejected)
next
  case (Inr res)
  then show ?thesis
    by (cases "body res")
       (simp_all add: checkExternalConnectivity_parsed checkExternalConnectivity_body_rejected
         checkExternalConnectivity_never)
qed

lemma external_try_world: "fst (external_try e j s') = fst (external_try e j s)"
  by (simp add: external_try_def external_catch_def split: sum.splits)

lemma external_try_with_status:
  "fst (external_try (with_status n e) j s) = fst (external_try e j s)"
proof -
  have "read_ip (with_status n e) j = read_ip e j"
    by (cases j) (simp_all add: read_ip_def with_status_def)
  moreover have "engine_message (with_status n e) = engine_message e"
    by (simp add: with_status_def)
  ultimately show ?thesis
    by (simp add: external_try_def external_catch_def split: sum.splits)
qed

text \<open>
  Claim C9, amended. \<open>checkExternalConnectivity\<close> never reads the status of the
  response: replacing every status leaves its result unchanged. For every response
  that arrives within the timeout and whose body parses to a value other than \<open>null\<close>
  whose \<open>ip\<close> (absent or not) a template literal can render, it returns \<open>ok: true\<close> with
  that \<open>ip\<close>. It returns \<open>ok: false\<close> only when the fetch was rejected or timed out, when
  reading or parsing the body was rejected, when the body parsed to \<open>null\<close>, or when the
  \<open>ip\<close> cannot be rendered.
\<close>

theorem external_check_ignores_status:
  "returned (checkExternalConnectivity (with_status n e) s) =
     returned (checkExternalConnectivity e s) \<and>
   (fst (race EXTERNAL_TIMEOUT (network e EXTERNAL_IP_URL external_init)) = Inr res \<and>
      body res = BodyParsed d j \<and> read_ip e j = Inr v \<and> renders_value v \<longrightarrow>
      returned (checkExternalConnectivity e s) = Some \<lparr>ext_ok = True, ip = v, error = None\<rparr>) \<and>
   (returned (checkExternalConnectivity e s) = Some r \<and> \<not> ext_ok r \<longrightarrow>
      (\<exists>err. fst (race EXTERNAL_TIMEOUT (network e EXTERNAL_IP_URL external_init)) = Inl err) \<or>
      (\<exists>res d err. fst (race EXTERNAL_TIMEOUT (network e EXTERNAL_IP_URL external_init)) = Inr res \<and>
          body res = BodyRejects d err) \<or>
      (\<exists>res d j. fst (race EXTERNAL_TIMEOUT (network e EXTERNAL_IP_URL external_init)) = Inr res \<and>
          body res = BodyParsed d j \<and>
          (j = JNull \<or> (\<exists>v. read_ip e j = Inr v \<and> \<not> renders_value v))))"
proof (intro conjI impI)
  show "returned (checkExternalConnectivity (with_status n e) s) =
     returned (checkExternalConnectivity e s)"
    unfolding returned_external_cases race_with_status
    by (cases "fst (race EXTERNAL_TIMEOUT (network e EXTERNAL_IP_URL external_init))")
       (simp_all add: external_try_with_status split: body_behaviour.splits)
next
  assume "fst (race EXTERNAL_TIMEOUT (network e EXTERNAL_IP_URL external_init)) = Inr res \<and>
      body res = BodyParsed d j \<and> read_ip e j = Inr v \<and> renders_value v"
  then show "returned (checkExternalConnectivity e s) = Some \<lparr>ext_ok = True, ip = v, error = None\<rparr>"
    by (simp add: returned_external_cases external_try_parsed)
next
  assume a: "returned (checkExternalConnectivity e s) = Some r \<and> \<not> ext_ok r"
  show "(\<exists>err. fst (race EXTERNAL_TIMEOUT (network e EXTERNAL_IP_URL external_init)) = Inl err) \<or>
      (\<exists>res d err. fst (race EXTERNAL_TIMEOUT (network e EXTERNAL_IP_URL external_init)) = Inr res \<and>
          body res = BodyRejects d err) \<or>
      (\<exists>res d j. fst (race EXTERNAL_TIMEOUT (network e EXTERNAL_IP_URL external_init)) = Inr res \<and>
          body res = BodyParsed d j \<and>
          (j = JNull \<or> (\<exists>v. read_ip e j = Inr v \<and> \<not> renders_value v)))"
  proof (cases "fst (race EXTERNAL_TIMEOUT (network e EXTERNAL_IP_URL external_init))")
    case (Inl err)
    then show ?thesis by blast
  next
    case (Inr res)
    show ?thesis
    proof (cases "body res")
      case (BodyParsed d j)
      have "j = JNull \<or> (\<exists>v. read_ip e j = Inr v \<and> \<not> renders_value v)"
      proof (rule ccontr)
        assume n: "\<not> (j = JNull \<or> (\<exists>v. read_ip e j = Inr v \<and> \<not> renders_value v))"
        with read_ip_cases[of j e] obtain v where v: "read_ip e j = Inr v" "renders_value v"
          by blast
        have "returned (checkExternalConnectivity e s) = Some \<lparr>ext_ok = True, ip = v, error = None\<rparr>"
          using Inr BodyParsed v by (simp add: returned_external_cases external_try_parsed)
        with a show False by auto
      qed
      with Inr BodyParsed show ?thesis by blast
    next
      case (BodyRejects d err)
      with Inr show ?thesis by blast
    next
      case BodyNever
      with Inr a show ?thesis by (simp add: returned_external_cases)
    qed
  qed
qed

lemma ip_service_external [simp]: "network (ip_service b) EXTERNAL_IP_URL opts = b"
  by (simp add: ip_service_def)

lemma ip_service_engine [simp]: "engine_message (ip_service b) = engine_text"
  by (simp add: ip_service_def)

text \<open>
  Claim C9 as stated fails: the body \<open>null\<close> parses as JSON, and reading \<open>json.ip\<close>
  throws inside the \<open>try\<close>, so the check returns \<open>ok: false\<close>.
\<close>

theorem external_check_null_body:
  "returned (checkExternalConnectivity (ip_service (Responds 100 null_response)) page_load) =
     Some \<lparr>ext_ok = False, ip = None, error = Some ''json is null''\<rparr>"
  by (simp add: returned_external_cases race_def EXTERNAL_TIMEOUT_def null_response_def
      external_try_null engine_text_def)

theorem external_check_ignores_status_witness:
  "returned (checkExternalConnectivity (ip_service (Responds 100 error_response)) page_load) =
     Some \<lparr>ext_ok = True, ip = None, error = None\<rparr> \<and>
   status error_response = 500 \<and>
   returned (checkExternalConnectivity (with_status 200 (ip_service (Responds 100 error_response))) page_load) =
     Some \<lparr>ext_ok = True, ip = None, error = None\<rparr> \<and>
   returned (checkExternalConnectivity (ip_service (Responds 100 garbled_response)) page_load) =
     Some \<lparr>ext_ok = False, ip = None, error = Some ''Unexpected token''\<rparr> \<and>
   ((\<exists>err. fst (race EXTERNAL_TIMEOUT
        (network (ip_service (Responds 100 garbled_response)) EXTERNAL_IP_URL external_init)) = Inl err) \<or>
    (\<exists>res d err. fst (race EXTERNAL_TIMEOUT
        (network (ip_service (Responds 100 garbled_response)) EXTERNAL_IP_URL external_init)) = Inr res \<and>
        body res = BodyRejects d err) \<or>
    (\<exists>res d j. fst (race EXTERNAL_TIMEOUT
        (network (ip_service (Responds 100 garbled_response)) EXTERNAL_IP_URL external_init)) = Inr res \<and>
        body res = BodyParsed d j \<and>
        (j = JNull \<or> (\<exists>v. read_ip (ip_service (Responds 100 garbled_response)) j = Inr v \<and>
           \<not> renders_value v))))"
proof -
  have r: "fst (race EXTERNAL_TIMEOUT
      (network (ip_service (Responds 100 error_response)) EXTERNAL_IP_URL external_init)) =
      Inr error_response"
    by (simp add: race_def EXTERNAL_TIMEOUT_def)
  have b: "body error_response = BodyParsed 5 (JObj [(''error'', JStr ''Internal Server Error'')])"
    by (simp add: error_response_def)
  have i: "read_ip (ip_service (Responds 100 error_response))
      (JObj [(''error'', JStr ''Internal Server Error'')]) = Inr None"
    by (simp add: read_ip_def)
  have v: "renders_value None"
    by (simp add: renders_value_def)
  note inst = external_check_ignores_status[of 200 "ip_service (Responds 100 error_response)"
      page_load error_response 5 "JObj [(''error'', JStr ''Internal Server Error'')]" None]
  have one: "returned (checkExternalConnectivity (ip_service (Responds 100 error_response)) page_load) =
     Some \<lparr>ext_ok = True, ip = None, error = None\<rparr>"
    using inst r b i v by blast
  have two: "returned (checkExternalConnectivity
      (with_status 200 (ip_service (Responds 100 error_response))) page_load) =
     Some \<lparr>ext_ok = True, ip = None, error = None\<rparr>"
    using inst one by simp
  have three: "returned (checkExternalConnectivity (ip_service (Responds 100 garbled_response)) page_load) =
     Some \<lparr>ext_ok = False, ip = None, error = Some ''Unexpected token''\<rparr>"
    by (simp add: returned_external_cases race_def EXTERNAL_TIMEOUT_def garbled_response_def)
  have four: "(\<exists>err. fst (race EXTERNAL_TIMEOUT
        (network (ip_service (Responds 100 garbled_response)) EXTERNAL_IP_URL external_init)) = Inl err) \<or>
    (\<exists>res d err. fst (race EXTERNAL_TIMEOUT
        (network (ip_service (Responds 100 garbled_response)) EXTERNAL_IP_URL external_init)) = Inr res \<and>
        body res = BodyRejects d err) \<or>
    (\<exists>res d j. fst (race EXTERNAL_TIMEOUT
        (network (ip_service (Responds 100 garbled_response)) EXTERNAL_IP_URL external_init)) = Inr res \<and>
        body res = BodyParsed d j \<and>
        (j = JNull \<or> (\<exists>v. read_ip (ip_service (Responds 100 garbled_response)) j = Inr v \<and>
           \<not> renders_value v)))"
    using external_check_ignores_status[of 200 "ip_service (Responds 100 garbled_response)"
        page_load _ _ _ _ "\<lparr>ext_ok = False, ip = None, error = Some ''Unexpected token''\<rparr>",
        THEN conjunct2, THEN conjunct2] three
    by simp
  show ?thesis
    using one two three four by (simp add: error_response_def)
qed

subsection \<open>Requests and time\<close>

lemma fetchWithTimeout_requests [simp]:
  "requests (snd (fetchWithTimeout e u t opts s)) =
     requests s @ [\<lparr>url = u, init = opts, issued_at = now s\<rparr>]"
  by (simp add: fetchWithTimeout_def split_def Let_def)

lemma fetchWithTimeout_now:
  "now (snd (fetchWithTimeout e u t opts s)) = now s + snd (race t (network e u opts))"
  by (simp add: fetchWithTimeout_def split_def Let_def)

lemma fetchWithTimeout_fst [simp]:
  "fst (fetchWithTimeout e u t opts s) = fst (race t (network e u opts))"
  by (simp add: fetchWithTimeout_def split_def Let_def)

lemma probe_port_requests [simp]:
  "requests (snd (probe_port e p s)) =
     requests s @ [\<lparr>url = local_url p (now s), init = local_init, issued_at = now s\<rparr>]"
  by (simp add: probe_port_def split_def Let_def)

lemma probe_port_now:
  "now (snd (probe_port e p s)) =
     now s + snd (race LOCAL_TIMEOUT (network e (local_url p (now s)) local_init))"
  by (simp add: probe_port_def split_def Let_def fetchWithTimeout_now)

lemma probe_port_fst:
  "fst (probe_port e p s) =
     local_result p (fst (race LOCAL_TIMEOUT (network e (local_url p (now s)) local_init)))"
  by (simp add: probe_port_def split_def Let_def)

lemma report_local_requests [simp]: "requests (report_local rs s) = requests s"
  by (simp add: report_local_def Let_def)

lemma checkFileProtocol_requests [simp]: "requests (checkFileProtocol e s) = requests s"
  by (simp add: checkFileProtocol_def)

lemma checkFileProtocol_now [simp]: "now (checkFileProtocol e s) = now s"
  by (simp add: checkFileProtocol_def)

lemma heuristic_summaries_requests [simp]:
  "requests (heuristic_summaries e lr ext net s) = requests s"
  by (simp add: heuristic_summaries_def Let_def)

lemma checkLocalServers_requests:
  "\<exists>t2 t3. requests (snd (checkLocalServers e s)) =
     requests s @
       [\<lparr>url = local_url 5500 (now s), init = local_init, issued_at = now s\<rparr>,
        \<lparr>url = local_url 3000 t2, init = local_init, issued_at = t2\<rparr>,
        \<lparr>url = local_url 8080 t3, init = local_init, issued_at = t3\<rparr>]"
  by (simp add: checkLocalServers_def LOCAL_PORTS_def Let_def split_def)

lemma checkExternalConnectivity_requests:
  "requests (final (checkExternalConnectivity e s)) =
     requests s @ [\<lparr>url = EXTERNAL_IP_URL, init = external_init, issued_at = now s\<rparr>]"
  by (simp add: checkExternalConnectivity_def Let_def split_def external_try_def external_catch_def
      split: sum.splits body_behaviour.splits)

lemma checkNetworkAdapter_requests:
  "requests (snd (checkNetworkAdapter e s)) =
     requests s @
       (if onLine e
        then [\<lparr>url = ''https://example.com/'', init = adapter_init, issued_at = now s\<rparr>]
        else [])"
  by (simp add: checkNetworkAdapter_def Let_def split_def split: sum.splits)

lemma runAllChecks_unfold:
  "runAllChecks e s =
     (case checkExternalConnectivity e
             (snd (checkLocalServers e
                (checkFileProtocol e (addMessage Info StartingDiagnostics (ensurePanel s))))) of
        Never_returns w \<Rightarrow> Never_returns w
      | Returns external s4 \<Rightarrow>
          Returns ()
            (heuristic_summaries e
               (fst (checkLocalServers e
                  (checkFileProtocol e (addMessage Info StartingDiagnostics (ensurePanel s)))))
               external (fst (checkNetworkAdapter e s4)) (snd (checkNetworkAdapter e s4))))"
  by (simp add: runAllChecks_def run_checks_unfold split: completion.splits)

lemma runAllChecks_requests:
  "\<exists>t2 t3 t4 rest. requests (final (runAllChecks e s)) =
     requests s @
       [\<lparr>url = local_url 5500 (now s), init = local_init, issued_at = now s\<rparr>,
        \<lparr>url = local_url 3000 t2, init = local_init, issued_at = t2\<rparr>,
        \<lparr>url = local_url 8080 t3, init = local_init, issued_at = t3\<rparr>,
        \<lparr>url = EXTERNAL_IP_URL, init = external_init, issued_at = t4\<rparr>] @ rest \<and>
     (rest = [] \<or>
      (\<exists>t5. rest = [\<lparr>url = ''https://example.com/'', init = adapter_init, issued_at = t5\<rparr>]))"
proof -
  let ?s2 = "checkFileProtocol e (addMessage Info StartingDiagnostics (ensurePanel s))"
  let ?s3 = "snd (checkLocalServers e ?s2)"
  from checkLocalServers_requests[of e ?s2] obtain t2 t3 where
    l: "requests ?s3 = requests s @
       [\<lparr>url = local_url 5500 (now s), init = local_init, issued_at = now s\<rparr>,
        \<lparr>url = local_url 3000 t2, init = local_init, issued_at = t2\<rparr>,
        \<lparr>url = local_url 8080 t3, init = local_init, issued_at = t3\<rparr>]"
    by auto
  have x: "requests (final (checkExternalConnectivity e ?s3)) =
      requests ?s3 @ [\<lparr>url = EXTERNAL_IP_URL, init = external_init, issued_at = now ?s3\<rparr>]"
    by (rule checkExternalConnectivity_requests)
  show ?thesis
  proof (cases "checkExternalConnectivity e ?s3")
    case (Never_returns w)
    then have "requests (final (runAllChecks e s)) = requests (final (checkExternalConnectivity e ?s3))"
      by (simp add: runAllChecks_unfold)
    then have "requests (final (runAllChecks e s)) =
     requests s @
       [\<lparr>url = local_url 5500 (now s), init = local_init, issued_at = now s\<rparr>,
        \<lparr>url = local_url 3000 t2, init = local_init, issued_at = t2\<rparr>,
        \<lparr>url = local_url 8080 t3, init = local_init, issued_at = t3\<rparr>,
        \<lparr>url = EXTERNAL_IP_URL, init = external_init, issued_at = now ?s3\<rparr>] @ []"
      using x l by simp
    then show ?thesis by blast
  next
    case (Returns ext s4)
    then have "requests (final (runAllChecks e s)) = requests (snd (checkNetworkAdapter e s4))"
      by (simp add: runAllChecks_unfold)
    moreover have "requests s4 = requests (final (checkExternalConnectivity e ?s3))"
      using Returns by simp
    ultimately have "requests (final (runAllChecks e s)) =
     requests s @
       [\<lparr>url = local_url 5500 (now s), init = local_init, issued_at = now s\<rparr>,
        \<lparr>url = local_url 3000 t2, init = local_init, issued_at = t2\<rparr>,
        \<lparr>url = local_url 8080 t3, init = local_init, issued_at = t3\<rparr>,
        \<lparr>url = EXTERNAL_IP_URL, init = external_init, issued_at = now ?s3\<rparr>] @
       (if onLine e
        then [\<lparr>url = ''https://example.com/'', init = adapter_init, issued_at = now s4\<rparr>]
        else [])"
      using x l by (simp add: checkNetworkAdapter_requests)
    moreover have "(if onLine e
        then [\<lparr>url = ''https://example.com/'', init = adapter_init, issued_at = now s4\<rparr>]
        else []) = [] \<or>
      (\<exists>t5. (if onLine e
        then [\<lparr>url = ''https://example.com/'', init = adapter_init, issued_at = now s4\<rparr>]
        else []) = [\<lparr>url = ''https://example.com/'', init = adapter_init, issued_at = t5\<rparr>])"
      by simp
    ultimately show ?thesis by blast
  qed
qed

lemma runAllChecks_no_signal:
  "list_all (\<lambda>q. signal (init q) = None)
     (drop (length (requests s)) (requests (final (runAllChecks e s))))"
proof -
  from runAllChecks_requests[of e s] obtain t2 t3 t4 rest where
    r: "requests (final (runAllChecks e s)) =
     requests s @
       [\<lparr>url = local_url 5500 (now s), init = local_init, issued_at = now s\<rparr>,
        \<lparr>url = local_url 3000 t2, init = local_init, issued_at = t2\<rparr>,
        \<lparr>url = local_url 8080 t3, init = local_init, issued_at = t3\<rparr>,
        \<lparr>url = EXTERNAL_IP_URL, init = external_init, issued_at = t4\<rparr>] @ rest"
    and rest: "rest = [] \<or>
      (\<exists>t5. rest = [\<lparr>url = ''https://example.com/'', init = adapter_init, issued_at = t5\<rparr>])"
    by blast
  from rest have "list_all (\<lambda>q. signal (init q) = None) rest"
    by (auto simp: adapter_init_def)
  then show ?thesis
    unfolding r by (simp add: local_init_def external_init_def)
qed

lemma external_timeout_now:
  assumes "times_out EXTERNAL_TIMEOUT (network e EXTERNAL_IP_URL external_init)"
  shows "now (final (checkExternalConnectivity e s)) = now s + EXTERNAL_TIMEOUT"
  using race_times_out[OF assms]
  by (simp add: checkExternalConnectivity_def Let_def fetchWithTimeout_def external_catch_def)

subsection \<open>Failures stay inside their check\<close>

text \<open>
  Claim C3, amended. A local-port probe that is rejected or times out yields
  \<open>{port, ok: false, info: err.message}\<close>; an external probe whose fetch is rejected or
  times out, or whose body cannot be read or parsed, yields
  \<open>{ok: false, error: err.message}\<close>; a failed supplementary probe of the adapter check
  yields \<open>{online: true, check: 'failed'}\<close>, which keeps no message. None of them
  throws, and unless the external response arrives with a body that never does, the
  run returns with the results of all four checks: the protocol row, the local
  results, the external result and the adapter result.
\<close>

theorem failures_recovered_locally:
  "(fst (race LOCAL_TIMEOUT (network e (local_url p (now s)) local_init)) = Inl err \<longrightarrow>
      fst (probe_port e p s) = \<lparr>port = p, ok = False, info = Some (message err)\<rparr>) \<and>
   (fst (race EXTERNAL_TIMEOUT (network e EXTERNAL_IP_URL external_init)) = Inl err \<longrightarrow>
      returned (checkExternalConnectivity e s) =
        Some \<lparr>ext_ok = False, ip = None, error = Some (message err)\<rparr>) \<and>
   (fst (race EXTERNAL_TIMEOUT (network e EXTERNAL_IP_URL external_init)) = Inr res \<and>
      body res = BodyRejects d err \<longrightarrow>
      returned (checkExternalConnectivity e s) =
        Some \<lparr>ext_ok = False, ip = None, error = Some (message err)\<rparr>) \<and>
   (onLine e \<and> fst (race 3000 (network e ''https://example.com/'' adapter_init)) = Inl err \<longrightarrow>
      fst (checkNetworkAdapter e s) = \<lparr>online = True, check = Some ''failed''\<rparr>) \<and>
   ((\<forall>res. fst (race EXTERNAL_TIMEOUT (network e EXTERNAL_IP_URL external_init)) = Inr res \<longrightarrow>
        body res \<noteq> BodyNever) \<longrightarrow>
      returned (runAllChecks e s) = Some () \<and>
      (\<exists>localResults external net.
         returned (run_checks e s) = Some (localResults, external, net) \<and>
         emitted s (final (runAllChecks e s)) =
           check_rows e localResults external net @ summary_rows e localResults external net))"
proof (intro conjI impI)
  assume "fst (race LOCAL_TIMEOUT (network e (local_url p (now s)) local_init)) = Inl err"
  then show "fst (probe_port e p s) = \<lparr>port = p, ok = False, info = Some (message err)\<rparr>"
    by (simp add: probe_port_fst local_result_def)
next
  assume "fst (race EXTERNAL_TIMEOUT (network e EXTERNAL_IP_URL external_init)) = Inl err"
  then show "returned (checkExternalConnectivity e s) =
        Some \<lparr>ext_ok = False, ip = None, error = Some (message err)\<rparr>"
    by (rule checkExternalConnectivity_rejected)
next
  assume "fst (race EXTERNAL_TIMEOUT (network e EXTERNAL_IP_URL external_init)) = Inr res \<and>
      body res = BodyRejects d err"
  then show "returned (checkExternalConnectivity e s) =
        Some \<lparr>ext_ok = False, ip = None, error = Some (message err)\<rparr>"
    by (simp add: checkExternalConnectivity_body_rejected)
next
  assume "onLine e \<and> fst (race 3000 (network e ''https://example.com/'' adapter_init)) = Inl err"
  then show "fst (checkNetworkAdapter e s) = \<lparr>online = True, check = Some ''failed''\<rparr>"
    by (simp add: checkNetworkAdapter_def Let_def split_def)
next
  assume a: "\<forall>res. fst (race EXTERNAL_TIMEOUT (network e EXTERNAL_IP_URL external_init)) = Inr res \<longrightarrow>
        body res \<noteq> BodyNever"
  let ?s3 = "snd (checkLocalServers e
                (checkFileProtocol e (addMessage Info StartingDiagnostics (ensurePanel s))))"
  have "returned (checkExternalConnectivity e ?s3) \<noteq> None"
    using a unfolding returned_external_cases
    by (auto split: sum.splits body_behaviour.splits)
  then obtain ext where "returned (checkExternalConnectivity e ?s3) = Some ext"
    by blast
  from run_checks_returned[OF this] obtain lr net where
    r: "returned (run_checks e s) = Some (lr, ext, net)"
    by blast
  show "returned (runAllChecks e s) = Some ()"
    by (simp add: runAllChecks_returned[OF r])
  show "\<exists>localResults external net.
         returned (run_checks e s) = Some (localResults, external, net) \<and>
         emitted s (final (runAllChecks e s)) =
           check_rows e localResults external net @ summary_rows e localResults external net"
    using r runAllChecks_emitted[OF r] by blast
qed

lemma scenario_blocked_network:
  "network scenario_blocked (local_url 3000 1000) local_init =
     FetchRejects 12 (Error ''Failed to fetch'')"
  "network scenario_blocked EXTERNAL_IP_URL external_init = FetchRejects 12 (Error ''Failed to fetch'')"
  "network scenario_blocked ''https://example.com/'' adapter_init =
     FetchRejects 12 (Error ''Failed to fetch'')"
  "onLine scenario_blocked"
  by (simp_all add: scenario_blocked_def local_url_def LOCAL_PATH_def EXTERNAL_IP_URL_def
      number_to_string_ports)

theorem failures_recovered_locally_witness:
  "fst (probe_port scenario_blocked 3000 page_load) =
     \<lparr>port = 3000, ok = False, info = Some ''Failed to fetch''\<rparr> \<and>
   returned (checkExternalConnectivity scenario_blocked page_load) =
     Some \<lparr>ext_ok = False, ip = None, error = Some ''Failed to fetch''\<rparr> \<and>
   returned (checkExternalConnectivity (ip_service (Responds 100 garbled_response)) page_load) =
     Some \<lparr>ext_ok = False, ip = None, error = Some ''Unexpected token''\<rparr> \<and>
   fst (checkNetworkAdapter scenario_blocked page_load) =
     \<lparr>online = True, check = Some ''failed''\<rparr> \<and>
   returned (runAllChecks scenario_blocked page_load) = Some ()"
proof -
  have r: "fst (race t (FetchRejects 12 (Error ''Failed to fetch''))) = Inl (Error ''Failed to fetch'')"
    if "12 < t" for t
    using that by (simp add: race_def)
  note inst = failures_recovered_locally[of scenario_blocked 3000 page_load "Error ''Failed to fetch''"]
  have one: "fst (probe_port scenario_blocked 3000 page_load) =
     \<lparr>port = 3000, ok = False, info = Some ''Failed to fetch''\<rparr>"
    using inst[THEN conjunct1] r[of LOCAL_TIMEOUT]
    by (simp add: scenario_blocked_network LOCAL_TIMEOUT_def)
  have two: "returned (checkExternalConnectivity scenario_blocked page_load) =
     Some \<lparr>ext_ok = False, ip = None, error = Some ''Failed to fetch''\<rparr>"
    using inst[THEN conjunct2, THEN conjunct1] r[of EXTERNAL_TIMEOUT]
    by (simp add: scenario_blocked_network EXTERNAL_TIMEOUT_def)
  have three: "returned (checkExternalConnectivity (ip_service (Responds 100 garbled_response)) page_load) =
     Some \<lparr>ext_ok = False, ip = None, error = Some ''Unexpected token''\<rparr>"
    using failures_recovered_locally[of "ip_service (Responds 100 garbled_response)" 3000 page_load
        "Error ''Unexpected token''" garbled_response 5, THEN conjunct2, THEN conjunct2, THEN conjunct1]
    by (simp add: race_def EXTERNAL_TIMEOUT_def garbled_response_def)
  have four: "fst (checkNetworkAdapter scenario_blocked page_load) =
     \<lparr>online = True, check = Some ''failed''\<rparr>"
    using inst[THEN conjunct2, THEN conjunct2, THEN conjunct2, THEN conjunct1] r[of 3000]
    by (simp add: scenario_blocked_network)
  have five: "returned (runAllChecks scenario_blocked page_load) = Some ()"
    using inst[THEN conjunct2, THEN conjunct2, THEN conjunct2, THEN conjunct2] r[of EXTERNAL_TIMEOUT]
    by (simp add: scenario_blocked_network EXTERNAL_TIMEOUT_def)
  show ?thesis
    using one two three four five by simp
qed

text \<open>
  Claim C3 as stated fails twice. The adapter check's probe is refused and its result
  is neither \<open>ok: false\<close> nor carries the message 'Failed to fetch'. And when the IP
  service sends its headers and then no body, \<open>res.json()\<close> never settles, no timer
  covers it, and the run never completes.
\<close>

theorem failures_not_all_recovered:
  "fst (checkNetworkAdapter scenario_blocked page_load) =
     \<lparr>online = True, check = Some ''failed''\<rparr> \<and>
   returned (runAllChecks (ip_service (Responds 100 stalled_response)) page_load) = None"
proof -
  have "returned (checkExternalConnectivity (ip_service (Responds 100 stalled_response)) s) = None" for s
    by (simp add: returned_external_cases race_def EXTERNAL_TIMEOUT_def stalled_response_def)
  then have "returned (runAllChecks (ip_service (Responds 100 stalled_response)) page_load) = None"
    unfolding runAllChecks_unfold
    by (simp split: completion.splits) (metis returned.simps(1) option.distinct(1))
  moreover have "fst (checkNetworkAdapter scenario_blocked page_load) =
     \<lparr>online = True, check = Some ''failed''\<rparr>"
    by (simp add: checkNetworkAdapter_def Let_def split_def scenario_blocked_network race_def)
  ultimately show ?thesis by simp
qed

subsection \<open>Timeouts\<close>

text \<open>
  Claim C7, amended. Every call of \<open>fetchWithTimeout\<close> settles within its \<open>timeoutMs\<close>, and
  with \<open>Error('timeout')\<close> when the fetch has not settled by then: a local-port probe
  within 2000 ms, its port then marked \<open>ok: false\<close>, and the fetch of the external probe
  within 4000 ms, the probe then returning \<open>ok: false\<close>. The timer only rejects the
  promise the caller awaits: \<open>fetch\<close> receives the caller's options unchanged, and no
  request of a run carries an abort signal.
\<close>

theorem probes_bounded:
  "now (snd (fetchWithTimeout e u t opts s)) \<le> now s + t \<and>
   (times_out t (network e u opts) \<longrightarrow>
      fst (fetchWithTimeout e u t opts s) = Inl (Error ''timeout'') \<and>
      now (snd (fetchWithTimeout e u t opts s)) = now s + t) \<and>
   now (snd (probe_port e p s)) \<le> now s + 2000 \<and>
   (times_out 2000 (network e (local_url p (now s)) local_init) \<longrightarrow>
      fst (probe_port e p s) = \<lparr>port = p, ok = False, info = Some ''timeout''\<rparr>) \<and>
   (times_out 4000 (network e EXTERNAL_IP_URL external_init) \<longrightarrow>
      returned (checkExternalConnectivity e s) =
        Some \<lparr>ext_ok = False, ip = None, error = Some ''timeout''\<rparr> \<and>
      now (final (checkExternalConnectivity e s)) = now s + 4000) \<and>
   requests (snd (fetchWithTimeout e u t opts s)) =
     requests s @ [\<lparr>url = u, init = opts, issued_at = now s\<rparr>] \<and>
   list_all (\<lambda>q. signal (init q) = None)
     (drop (length (requests s)) (requests (final (runAllChecks e s))))"
proof (intro conjI impI)
  show "now (snd (fetchWithTimeout e u t opts s)) \<le> now s + t"
    using race_bound[of t "network e u opts"] by (simp add: fetchWithTimeout_now)
next
  assume a: "times_out t (network e u opts)"
  show "fst (fetchWithTimeout e u t opts s) = Inl (Error ''timeout'')"
    using race_times_out[OF a] by simp
  show "now (snd (fetchWithTimeout e u t opts s)) = now s + t"
    using race_times_out[OF a] by (simp add: fetchWithTimeout_now)
next
  show "now (snd (probe_port e p s)) \<le> now s + 2000"
    using race_bound[of LOCAL_TIMEOUT "network e (local_url p (now s)) local_init"]
    by (simp add: probe_port_now LOCAL_TIMEOUT_def)
next
  assume "times_out 2000 (network e (local_url p (now s)) local_init)"
  then have "times_out LOCAL_TIMEOUT (network e (local_url p (now s)) local_init)"
    by (simp add: LOCAL_TIMEOUT_def)
  from race_times_out[OF this]
  show "fst (probe_port e p s) = \<lparr>port = p, ok = False, info = Some ''timeout''\<rparr>"
    by (simp add: probe_port_fst local_result_def)
next
  assume "times_out 4000 (network e EXTERNAL_IP_URL external_init)"
  then have a: "times_out EXTERNAL_TIMEOUT (network e EXTERNAL_IP_URL external_init)"
    by (simp add: EXTERNAL_TIMEOUT_def)
  have "fst (race EXTERNAL_TIMEOUT (network e EXTERNAL_IP_URL external_init)) = Inl (Error ''timeout'')"
    using race_times_out[OF a] by simp
  from checkExternalConnectivity_rejected[OF this]
  show "returned (checkExternalConnectivity e s) =
        Some \<lparr>ext_ok = False, ip = None, error = Some ''timeout''\<rparr>"
    by simp
  show "now (final (checkExternalConnectivity e s)) = now s + 4000"
    using external_timeout_now[OF a] by (simp add: EXTERNAL_TIMEOUT_def)
next
  show "requests (snd (fetchWithTimeout e u t opts s)) =
     requests s @ [\<lparr>url = u, init = opts, issued_at = now s\<rparr>]"
    by simp
next
  show "list_all (\<lambda>q. signal (init q) = None)
     (drop (length (requests s)) (requests (final (runAllChecks e s))))"
    by (rule runAllChecks_no_signal)
qed

theorem probes_bounded_witness:
  "times_out 2000 (network scenario_silent (local_url 8080 (now page_load)) local_init) \<and>
   fst (probe_port scenario_silent 8080 page_load) =
     \<lparr>port = 8080, ok = False, info = Some ''timeout''\<rparr> \<and>
   times_out 4000 (network scenario_silent EXTERNAL_IP_URL external_init) \<and>
   fst (fetchWithTimeout scenario_silent EXTERNAL_IP_URL 4000 external_init page_load) =
     Inl (Error ''timeout'') \<and>
   now (snd (fetchWithTimeout scenario_silent EXTERNAL_IP_URL 4000 external_init page_load)) = 5000 \<and>
   returned (checkExternalConnectivity scenario_silent page_load) =
     Some \<lparr>ext_ok = False, ip = None, error = Some ''timeout''\<rparr> \<and>
   now (final (checkExternalConnectivity scenario_silent page_load)) = 5000 \<and>
   list_all (\<lambda>q. signal (init q) = None) (requests (final (runAllChecks scenario_silent page_load)))"
proof -
  have n: "network scenario_silent u opts = FetchNever" for u opts
    by (simp add: scenario_silent_def)
  have t: "times_out k FetchNever" for k
    by (simp add: times_out_def)
  note inst = probes_bounded[of scenario_silent EXTERNAL_IP_URL 4000 external_init page_load 8080]
  have a: "fst (fetchWithTimeout scenario_silent EXTERNAL_IP_URL 4000 external_init page_load) =
     Inl (Error ''timeout'') \<and>
     now (snd (fetchWithTimeout scenario_silent EXTERNAL_IP_URL 4000 external_init page_load)) =
       now page_load + 4000"
    using inst[THEN conjunct2, THEN conjunct1] n t by simp
  have b: "fst (probe_port scenario_silent 8080 page_load) =
     \<lparr>port = 8080, ok = False, info = Some ''timeout''\<rparr>"
    using inst[THEN conjunct2, THEN conjunct2, THEN conjunct2, THEN conjunct1] n t by simp
  have c: "returned (checkExternalConnectivity scenario_silent page_load) =
        Some \<lparr>ext_ok = False, ip = None, error = Some ''timeout''\<rparr> \<and>
      now (final (checkExternalConnectivity scenario_silent page_load)) = now page_load + 4000"
    using inst[THEN conjunct2, THEN conjunct2, THEN conjunct2, THEN conjunct2, THEN conjunct1] n t
    by simp
  have d: "list_all (\<lambda>q. signal (init q) = None)
      (requests (final (runAllChecks scenario_silent page_load)))"
    using inst[THEN conjunct2, THEN conjunct2, THEN conjunct2, THEN conjunct2, THEN conjunct2,
        THEN conjunct2]
    by simp
  show ?thesis
    using a b c d n t by simp
qed

text \<open>
  Claim C7 as stated fails. The timer of the external probe is cleared when the
  response arrives: a body that takes ten seconds is waited for, 10100 ms in all, and
  the probe succeeds. And on a network that never answers every probe times out, yet no
  request was given a signal that could cancel it.
\<close>

theorem probes_not_all_bounded:
  "returned (checkExternalConnectivity (ip_service (Responds 100 slow_response)) page_load) =
     Some \<lparr>ext_ok = True, ip = Some (JStr ''203.0.113.45''), error = None\<rparr> \<and>
   now (final (checkExternalConnectivity (ip_service (Responds 100 slow_response)) page_load)) =
     now page_load + 10100 \<and>
   map (\<lambda>q. signal (init q)) (requests (final (runAllChecks scenario_silent page_load))) =
     [None, None, None, None, None]"
proof -
  have a: "returned (checkExternalConnectivity (ip_service (Responds 100 slow_response)) page_load) =
     Some \<lparr>ext_ok = True, ip = Some (JStr ''203.0.113.45''), error = None\<rparr>"
    by (simp add: returned_external_cases race_def EXTERNAL_TIMEOUT_def slow_response_def
        external_try_def read_ip_def renders_value_def)
  have b: "now (final (checkExternalConnectivity (ip_service (Responds 100 slow_response)) page_load)) =
     now page_load + 10100"
    by (simp add: checkExternalConnectivity_def fetchWithTimeout_def race_def EXTERNAL_TIMEOUT_def
        slow_response_def external_try_def read_ip_def renders_value_def Let_def)
  have c: "map (\<lambda>q. signal (init q)) (requests (final (runAllChecks scenario_silent page_load))) =
     [None, None, None, None, None]"
    by (simp add: model_defs scenario_silent_def)
  show ?thesis
    using a b c by simp
qed

subsection \<open>Configuration\<close>

text \<open>
  Claim C8, amended. The entry point is \<open>runAllChecks()\<close>: it has no parameter, so a
  call that passes a configuration runs as the call without one. Every run probes
  ports 5500, 3000 and 8080 on path \<open>/\<close> and then the fixed IP service, in that order,
  waits at most 2000 ms for a port and 4000 ms for the IP service's response, and
  resolves with no value (\<open>undefined\<close>): the results go to the panel and the console
  only.
\<close>

theorem fixed_configuration:
  "runAllChecks_called_with args e s = runAllChecks e s \<and>
   LOCAL_PORTS = [5500, 3000, 8080] \<and> LOCAL_PATH = ''/'' \<and>
   LOCAL_TIMEOUT = 2000 \<and> EXTERNAL_TIMEOUT = 4000 \<and>
   (\<exists>t2 t3 t4 rest. requests (final (runAllChecks_called_with args e s)) =
      requests s @
        [\<lparr>url = local_url 5500 (now s), init = local_init, issued_at = now s\<rparr>,
         \<lparr>url = local_url 3000 t2, init = local_init, issued_at = t2\<rparr>,
         \<lparr>url = local_url 8080 t3, init = local_init, issued_at = t3\<rparr>,
         \<lparr>url = EXTERNAL_IP_URL, init = external_init, issued_at = t4\<rparr>] @ rest \<and>
      (rest = [] \<or>
       (\<exists>t5. rest = [\<lparr>url = ''https://example.com/'', init = adapter_init, issued_at = t5\<rparr>]))) \<and>
   (network e (local_url p (now s)) local_init = FetchNever \<longrightarrow>
      now (snd (probe_port e p s)) = now s + 2000) \<and>
   (network e EXTERNAL_IP_URL external_init = FetchNever \<longrightarrow>
      now (final (checkExternalConnectivity e s)) = now s + 4000) \<and>
   (returned (run_checks e s) \<noteq> None \<longrightarrow>
      returned (runAllChecks_called_with args e s) = Some ())"
proof (intro conjI impI)
  show "runAllChecks_called_with args e s = runAllChecks e s"
    by (simp add: runAllChecks_called_with_def)
  show "LOCAL_PORTS = [5500, 3000, 8080]" "LOCAL_PATH = ''/''"
    "LOCAL_TIMEOUT = 2000" "EXTERNAL_TIMEOUT = 4000"
    by (simp_all add: LOCAL_PORTS_def LOCAL_PATH_def LOCAL_TIMEOUT_def EXTERNAL_TIMEOUT_def)
  show "\<exists>t2 t3 t4 rest. requests (final (runAllChecks_called_with args e s)) =
      requests s @
        [\<lparr>url = local_url 5500 (now s), init = local_init, issued_at = now s\<rparr>,
         \<lparr>url = local_url 3000 t2, init = local_init, issued_at = t2\<rparr>,
         \<lparr>url = local_url 8080 t3, init = local_init, issued_at = t3\<rparr>,
         \<lparr>url = EXTERNAL_IP_URL, init = external_init, issued_at = t4\<rparr>] @ rest \<and>
      (rest = [] \<or>
       (\<exists>t5. rest = [\<lparr>url = ''https://example.com/'', init = adapter_init, issued_at = t5\<rparr>]))"
    unfolding runAllChecks_called_with_def by (rule runAllChecks_requests)
next
  assume "network e (local_url p (now s)) local_init = FetchNever"
  then show "now (snd (probe_port e p s)) = now s + 2000"
    by (simp add: probe_port_now race_def LOCAL_TIMEOUT_def)
next
  assume "network e EXTERNAL_IP_URL external_init = FetchNever"
  then have "times_out EXTERNAL_TIMEOUT (network e EXTERNAL_IP_URL external_init)"
    by (simp add: times_out_def)
  from external_timeout_now[OF this]
  show "now (final (checkExternalConnectivity e s)) = now s + 4000"
    by (simp add: EXTERNAL_TIMEOUT_def)
next
  assume "returned (run_checks e s) \<noteq> None"
  then obtain lr ext net where "returned (run_checks e s) = Some (lr, ext, net)"
    by (cases "returned (run_checks e s)") auto
  from runAllChecks_returned[OF this]
  show "returned (runAllChecks_called_with args e s) = Some ()"
    by (simp add: runAllChecks_called_with_def)
qed

lemma number_to_string_times:
  "number_to_string 1000 = ''1000''" "number_to_string 5000 = ''5000''"
  by (simp_all add: number_to_string.simps)

lemma scenario_silent_run:
  "map url (requests (final (runAllChecks scenario_silent page_load))) =
     [''http://localhost:5500/?_dev_diag=1000'', ''http://localhost:3000/?_dev_diag=3000'',
      ''http://localhost:8080/?_dev_diag=5000'', ''https://api.ipify.org?format=json'',
      ''https://example.com/'']"
  "now (final (runAllChecks scenario_silent page_load)) = 14000"
  "returned (runAllChecks scenario_silent page_load) = Some ()"
  by (simp_all add: model_defs scenario_silent_def number_to_string_ports number_to_string_times)

theorem fixed_configuration_witness:
  "network scenario_silent (local_url 3000 (now page_load)) local_init = FetchNever \<and>
   now (snd (probe_port scenario_silent 3000 page_load)) = 3000 \<and>
   network scenario_silent EXTERNAL_IP_URL external_init = FetchNever \<and>
   now (final (checkExternalConnectivity scenario_silent page_load)) = 5000 \<and>
   runAllChecks_called_with [custom_config] scenario_silent page_load =
     runAllChecks scenario_silent page_load \<and>
   returned (run_checks scenario_silent page_load) \<noteq> None \<and>
   returned (runAllChecks_called_with [custom_config] scenario_silent page_load) = Some ()"
proof -
  have n: "network scenario_silent u opts = FetchNever" for u opts
    by (simp add: scenario_silent_def)
  have r: "returned (run_checks scenario_silent page_load) \<noteq> None"
    by (simp add: model_defs scenario_silent_def)
  note inst = fixed_configuration[of "[custom_config]" scenario_silent page_load 3000]
  have a: "returned (runAllChecks_called_with [custom_config] scenario_silent page_load) = Some ()"
    using inst r by blast
  have b: "runAllChecks_called_with [custom_config] scenario_silent page_load =
     runAllChecks scenario_silent page_load"
    using inst by blast
  have c: "now (snd (probe_port scenario_silent 3000 page_load)) = now page_load + 2000"
    using inst n by blast
  have d: "now (final (checkExternalConnectivity scenario_silent page_load)) = now page_load + 4000"
    using inst n by blast
  show ?thesis
    using a b c d n r by simp
qed

text \<open>
  Claim C8 as stated fails: a caller supplies port 9000 and timeouts of 100 ms on a
  network that never answers; the run still probes 5500, 3000 and 8080, waits 2000 ms
  for each and 4000 ms for the IP service, and resolves with \<open>undefined\<close>.
\<close>

theorem supplied_config_ignored:
  "localPorts custom_config = [9000] \<and> perPortTimeoutMs custom_config = 100 \<and>
   externalTimeoutMs custom_config = 100 \<and>
   map url (requests (final (runAllChecks_called_with [custom_config] scenario_silent page_load))) =
     [''http://localhost:5500/?_dev_diag=1000'', ''http://localhost:3000/?_dev_diag=3000'',
      ''http://localhost:8080/?_dev_diag=5000'', ''https://api.ipify.org?format=json'',
      ''https://example.com/''] \<and>
   now (final (runAllChecks_called_with [custom_config] scenario_silent page_load)) =
     now page_load + 3 * 2000 + 4000 + 3000 \<and>
   returned (runAllChecks_called_with [custom_config] scenario_silent page_load) = Some ()"
  by (simp add: runAllChecks_called_with_def scenario_silent_run custom_config_def)

subsection \<open>Overlapping runs\<close>






lemma shown_clear_messages [simp]: "shown (clear_messages (ensurePanel s)) = []"
  by (simp add: clear_messages_def ensurePanel_def shown_def the_panel_def split: option.splits)

lemma buttons_clear_messages [simp]: "buttons (clear_messages s) = buttons s"
  by (simp add: clear_messages_def buttons_def the_panel_def split: option.splits)

lemma now_clear_messages [simp]: "now (clear_messages s) = now s"
  by (simp add: clear_messages_def)

lemma requests_clear_messages [simp]: "requests (clear_messages s) = requests s"
  by (simp add: clear_messages_def)
















subsection \<open>The port probes\<close>

lemma probe_port_probes:
  assumes "probe_port e p s = (r, s')"
  shows "\<exists>q. requests s' = requests s @ [q] \<and> probes q p \<and> answers e r q \<and> port r = p"
proof -
  let ?q = "\<lparr>url = local_url p (now s), init = local_init, issued_at = now s\<rparr>"
  have "requests s' = requests s @ [?q]"
    by (rule probe_port_frame(3)[OF assms])
  moreover have "probes ?q p"
    by (simp add: probes_def local_url_def LOCAL_PATH_def local_init_def)
  moreover have "answers e r ?q"
    using probe_port_frame(7)[OF assms]
    by (simp add: answers_def local_result_def LOCAL_TIMEOUT_def split: sum.splits)
  moreover have "port r = p"
    by (rule probe_port_frame(6)[OF assms])
  ultimately show ?thesis by blast
qed

lemma probe_ports_exhaustive:
  "probe_ports e ps results s = (rs, s') \<Longrightarrow>
     \<exists>new reqs. rs = results @ new \<and> requests s' = requests s @ reqs \<and>
       list_all2 probes reqs ps \<and> list_all2 (answers e) new reqs \<and> map port new = ps"
proof (induction ps arbitrary: results s)
  case Nil
  then show ?case by simp
next
  case (Cons p ps)
  obtain r s1 where p: "probe_port e p s = (r, s1)"
    by (cases "probe_port e p s")
  with Cons.prems have rest: "probe_ports e ps (results @ [r]) s1 = (rs, s')"
    by simp
  from probe_port_probes[OF p] obtain q where
    q: "requests s1 = requests s @ [q]" "probes q p" "answers e r q" "port r = p"
    by blast
  from Cons.IH[OF rest] obtain new reqs where
    ih: "rs = (results @ [r]) @ new" "requests s' = requests s1 @ reqs"
      "list_all2 probes reqs ps" "list_all2 (answers e) new reqs" "map port new = ps"
    by blast
  have a: "rs = results @ (r # new)"
    using ih(1) by simp
  have b: "requests s' = requests s @ (q # reqs)"
    using ih(2) q(1) by simp
  have c: "list_all2 probes (q # reqs) (p # ps)"
    using ih(3) q(2) by simp
  have d: "list_all2 (answers e) (r # new) (q # reqs)"
    using ih(4) q(3) by simp
  have f: "map port (r # new) = p # ps"
    using ih(5) q(4) by simp
  show ?case
    by (rule exI[of _ "r # new"], rule exI[of _ "q # reqs"]) (simp only: a b c d f simp_thms)
qed

lemma checkLocalServers_exhaustive:
  "\<exists>reqs. requests (snd (checkLocalServers e s)) = requests s @ reqs \<and>
     list_all2 probes reqs LOCAL_PORTS \<and>
     list_all2 (answers e) (fst (checkLocalServers e s)) reqs \<and>
     map port (fst (checkLocalServers e s)) = LOCAL_PORTS"
proof -
  let ?s1 = "addMessage Info (CheckingLocalServers LOCAL_PORTS) s"
  obtain rs s2 where p: "probe_ports e LOCAL_PORTS [] ?s1 = (rs, s2)"
    by (cases "probe_ports e LOCAL_PORTS [] ?s1")
  have c: "checkLocalServers e s = (rs, report_local rs s2)"
    using p by (simp add: checkLocalServers_def)
  from probe_ports_exhaustive[OF p] obtain reqs where
    "requests s2 = requests s @ reqs" "list_all2 probes reqs LOCAL_PORTS"
    "list_all2 (answers e) rs reqs" "map port rs = LOCAL_PORTS"
    by auto
  then show ?thesis
    unfolding c by (auto simp: report_local_def Let_def)
qed

lemma run_checks_requests:
  assumes "returned (run_checks e s) = Some (lr, ext, net)"
  shows "\<exists>reqs rest. requests (final (run_checks e s)) = requests s @ reqs @ rest \<and>
     list_all2 probes reqs LOCAL_PORTS \<and> list_all2 (answers e) lr reqs \<and>
     map port lr = LOCAL_PORTS"
proof -
  let ?s2 = "checkFileProtocol e (addMessage Info StartingDiagnostics (ensurePanel s))"
  let ?s3 = "snd (checkLocalServers e ?s2)"
  obtain x s4 where x: "checkExternalConnectivity e ?s3 = Returns x s4"
    using assms unfolding run_checks_unfold
    by (cases "checkExternalConnectivity e ?s3") simp_all
  have lr: "lr = fst (checkLocalServers e ?s2)"
    and fin: "final (run_checks e s) = snd (checkNetworkAdapter e s4)"
    using assms x unfolding run_checks_unfold by simp_all
  from checkLocalServers_exhaustive[of e ?s2] obtain reqs where
    r: "requests ?s3 = requests s @ reqs" "list_all2 probes reqs LOCAL_PORTS"
      "list_all2 (answers e) lr reqs" "map port lr = LOCAL_PORTS"
    unfolding lr by auto
  have "requests s4 = requests (final (checkExternalConnectivity e ?s3))"
    using x by simp
  then have "requests s4 = requests ?s3 @
      [\<lparr>url = EXTERNAL_IP_URL, init = external_init, issued_at = now ?s3\<rparr>]"
    by (simp add: checkExternalConnectivity_requests)
  then have "requests (final (run_checks e s)) = requests s @ reqs @
      ([\<lparr>url = EXTERNAL_IP_URL, init = external_init, issued_at = now ?s3\<rparr>] @
       (if onLine e
        then [\<lparr>url = ''https://example.com/'', init = adapter_init, issued_at = now s4\<rparr>]
        else []))"
    using r(1) by (simp add: fin checkNetworkAdapter_requests)
  with r show ?thesis by blast
qed

text \<open>
  Claim C2. The loop over a port list \<open>P\<close> issues exactly one request per port of \<open>P\<close>, in
  order, each to its own port, and pushes exactly one result per port, in order, each
  carrying its port and the outcome of its own request: \<open>ok: true\<close> when a response
  arrived within the timeout, \<open>ok: false\<close> with the message otherwise. This holds on
  every network, whatever the earlier probes did. \<open>checkLocalServers\<close> runs the loop on
  \<open>LOCAL_PORTS\<close>, so a run that returned has issued the probes of ports 5500, 3000 and
  8080 and its \<open>localResults\<close> are the three results of those probes.
\<close>

theorem one_result_per_port:
  "map port (fst (probe_ports e P [] s)) = P \<and>
   length (fst (probe_ports e P [] s)) = length P \<and>
   length (requests (snd (probe_ports e P [] s))) = length (requests s) + length P \<and>
   (\<exists>reqs. requests (snd (probe_ports e P [] s)) = requests s @ reqs \<and>
      list_all2 probes reqs P \<and> list_all2 (answers e) (fst (probe_ports e P [] s)) reqs) \<and>
   map port (fst (checkLocalServers e s)) = LOCAL_PORTS \<and>
   (\<exists>reqs. requests (snd (checkLocalServers e s)) = requests s @ reqs \<and>
      list_all2 probes reqs LOCAL_PORTS \<and>
      list_all2 (answers e) (fst (checkLocalServers e s)) reqs) \<and>
   (returned (run_checks e s) = Some (localResults, external, net) \<longrightarrow>
      map port localResults = LOCAL_PORTS \<and> length localResults = 3 \<and>
      (\<exists>reqs rest. requests (final (run_checks e s)) = requests s @ reqs @ rest \<and>
         list_all2 probes reqs LOCAL_PORTS \<and> list_all2 (answers e) localResults reqs))"
proof -
  obtain rs s' where p: "probe_ports e P [] s = (rs, s')"
    by (cases "probe_ports e P [] s")
  from probe_ports_exhaustive[OF p] obtain reqs where
    x: "requests s' = requests s @ reqs" "list_all2 probes reqs P"
      "list_all2 (answers e) rs reqs" "map port rs = P"
    by auto
  have l: "length rs = length P"
    using x(4) by (metis length_map)
  have q: "length (requests s') = length (requests s) + length P"
    using x(1,2) by (simp add: list_all2_lengthD)
  have loop: "\<exists>reqs. requests s' = requests s @ reqs \<and>
      list_all2 probes reqs P \<and> list_all2 (answers e) rs reqs"
    using x by blast
  have c: "\<exists>reqs. requests (snd (checkLocalServers e s)) = requests s @ reqs \<and>
      list_all2 probes reqs LOCAL_PORTS \<and>
      list_all2 (answers e) (fst (checkLocalServers e s)) reqs"
    and cm: "map port (fst (checkLocalServers e s)) = LOCAL_PORTS"
    using checkLocalServers_exhaustive[of e s] by blast+
  have r: "map port localResults = LOCAL_PORTS \<and> length localResults = 3 \<and>
      (\<exists>reqs rest. requests (final (run_checks e s)) = requests s @ reqs @ rest \<and>
         list_all2 probes reqs LOCAL_PORTS \<and> list_all2 (answers e) localResults reqs)"
    if a: "returned (run_checks e s) = Some (localResults, external, net)"
  proof -
    from run_checks_requests[OF a] obtain reqs rest where
      y: "requests (final (run_checks e s)) = requests s @ reqs @ rest"
        "list_all2 probes reqs LOCAL_PORTS" "list_all2 (answers e) localResults reqs"
        "map port localResults = LOCAL_PORTS"
      by blast
    have "length localResults = length LOCAL_PORTS"
      using y(4) by (metis length_map)
    then have "length localResults = 3"
      by (simp add: LOCAL_PORTS_def)
    with y show ?thesis by blast
  qed
  show ?thesis
    using x(4) l q loop c cm r unfolding p by simp
qed

lemma scenario_file_requests:
  "map url (requests (final (run_checks scenario_file page_load))) =
     [''http://localhost:5500/?_dev_diag=1000'', ''http://localhost:3000/?_dev_diag=1012'',
      ''http://localhost:8080/?_dev_diag=1024'', ''https://api.ipify.org?format=json'',
      ''https://example.com/'']"
proof -
  have n: "number_to_string 1000 = ''1000''" "number_to_string 1012 = ''1012''"
    "number_to_string 1024 = ''1024''"
    by (simp_all add: number_to_string.simps)
  show ?thesis
    by (simp add: model_defs scenario_file_def number_to_string_ports n)
qed

theorem one_result_per_port_witness:
  "returned (run_checks scenario_file page_load) = Some
    ([\<lparr>port = 5500, ok = False, info = Some ''Failed to fetch''\<rparr>,
      \<lparr>port = 3000, ok = False, info = Some ''Failed to fetch''\<rparr>,
      \<lparr>port = 8080, ok = False, info = Some ''Failed to fetch''\<rparr>],
     \<lparr>ext_ok = True, ip = Some (JStr ''203.0.113.45''), error = None\<rparr>,
     \<lparr>online = True, check = Some ''ok''\<rparr>) \<and>
   map port [\<lparr>port = 5500, ok = False, info = Some ''Failed to fetch''\<rparr>,
      \<lparr>port = 3000, ok = False, info = Some ''Failed to fetch''\<rparr>,
      \<lparr>port = 8080, ok = False, info = Some ''Failed to fetch''\<rparr>] = LOCAL_PORTS \<and>
   (\<exists>reqs rest. requests (final (run_checks scenario_file page_load)) =
        requests page_load @ reqs @ rest \<and>
      list_all2 probes reqs LOCAL_PORTS \<and>
      list_all2 (answers scenario_file)
        [\<lparr>port = 5500, ok = False, info = Some ''Failed to fetch''\<rparr>,
         \<lparr>port = 3000, ok = False, info = Some ''Failed to fetch''\<rparr>,
         \<lparr>port = 8080, ok = False, info = Some ''Failed to fetch''\<rparr>] reqs) \<and>
   map url (requests (final (run_checks scenario_file page_load))) =
     [''http://localhost:5500/?_dev_diag=1000'', ''http://localhost:3000/?_dev_diag=1012'',
      ''http://localhost:8080/?_dev_diag=1024'', ''https://api.ipify.org?format=json'',
      ''https://example.com/''] \<and>
   map port (fst (probe_ports scenario_file [9000, 9001] [] page_load)) = [9000, 9001] \<and>
   length (requests (snd (probe_ports scenario_file [9000, 9001] [] page_load))) = 2"
proof -
  note run = one_result_per_port[of scenario_file "[9000, 9001]" page_load _ _ _, THEN conjunct2,
      THEN conjunct2, THEN conjunct2, THEN conjunct2, THEN conjunct2, THEN conjunct2,
      rule_format, OF scenario_file_checks]
  note loop = one_result_per_port[of scenario_file "[9000, 9001]" page_load]
  have a: "map port [\<lparr>port = 5500, ok = False, info = Some ''Failed to fetch''\<rparr>,
      \<lparr>port = 3000, ok = False, info = Some ''Failed to fetch''\<rparr>,
      \<lparr>port = 8080, ok = False, info = Some ''Failed to fetch''\<rparr>] = LOCAL_PORTS"
    using run by blast
  have b: "\<exists>reqs rest. requests (final (run_checks scenario_file page_load)) =
        requests page_load @ reqs @ rest \<and>
      list_all2 probes reqs LOCAL_PORTS \<and>
      list_all2 (answers scenario_file)
        [\<lparr>port = 5500, ok = False, info = Some ''Failed to fetch''\<rparr>,
         \<lparr>port = 3000, ok = False, info = Some ''Failed to fetch''\<rparr>,
         \<lparr>port = 8080, ok = False, info = Some ''Failed to fetch''\<rparr>] reqs"
    using run by blast
  have c: "map port (fst (probe_ports scenario_file [9000, 9001] [] page_load)) = [9000, 9001]"
    using loop by blast
  have d: "length (requests (snd (probe_ports scenario_file [9000, 9001] [] page_load))) = 2"
    using loop by simp
  show ?thesis
    using a b c d scenario_file_checks scenario_file_requests by blast
qed

subsection \<open>The file-origin finding\<close>

lemma run_checks_returns_iff:
  "returned (run_checks e s) \<noteq> None \<longleftrightarrow>
     \<not> (\<exists>res. fst (race EXTERNAL_TIMEOUT (network e EXTERNAL_IP_URL external_init)) = Inr res \<and>
            body res = BodyNever)"
proof -
  let ?s3 = "snd (checkLocalServers e
                (checkFileProtocol e (addMessage Info StartingDiagnostics (ensurePanel s))))"
  have "returned (run_checks e s) \<noteq> None \<longleftrightarrow> returned (checkExternalConnectivity e ?s3) \<noteq> None"
    unfolding run_checks_unfold
    by (cases "checkExternalConnectivity e ?s3") simp_all
  also have "\<dots> \<longleftrightarrow> \<not> (\<exists>res. fst (race EXTERNAL_TIMEOUT (network e EXTERNAL_IP_URL external_init)) = Inr res \<and>
            body res = BodyNever)"
    unfolding returned_external_cases
    by (auto split: sum.splits body_behaviour.splits)
  finally show ?thesis .
qed

text \<open>
  Claim C1, amended. In every run whose four checks have returned, the row 'Likely
  cause: file:// + no dev server' is among the rows the run adds to the panel if and
  only if \<open>location.protocol\<close> is \<open>file:\<close> and every entry of \<open>localResults\<close> has \<open>ok\<close>
  false; a run whose checks do not return adds no such row. The checks return, and the
  equivalence holds for their results, whenever the external response, if one arrives
  in time, has a body whose read settles.
\<close>

theorem file_origin_finding_iff:
  "(returned (run_checks e s) = Some (localResults, external, net) \<longrightarrow>
      (LikelyCauseFileNoServer \<in> snd ` set (emitted s (final (runAllChecks e s))) \<longleftrightarrow>
         protocol e = ''file:'' \<and> list_all (\<lambda>r. \<not> ok r) localResults)) \<and>
   (returned (run_checks e s) = None \<longrightarrow>
      LikelyCauseFileNoServer \<notin> snd ` set (emitted s (final (runAllChecks e s)))) \<and>
   ((\<forall>res. fst (race EXTERNAL_TIMEOUT (network e EXTERNAL_IP_URL external_init)) = Inr res \<longrightarrow>
        body res \<noteq> BodyNever) \<longrightarrow>
      (\<exists>localResults external net.
         returned (run_checks e s) = Some (localResults, external, net) \<and>
         (LikelyCauseFileNoServer \<in> snd ` set (emitted s (final (runAllChecks e s))) \<longleftrightarrow>
            protocol e = ''file:'' \<and> list_all (\<lambda>r. \<not> ok r) localResults)))"
proof -
  have iff: "LikelyCauseFileNoServer \<in> snd ` set (emitted s (final (runAllChecks e s))) \<longleftrightarrow>
         protocol e = ''file:'' \<and> list_all (\<lambda>r. \<not> ok r) lr"
    if r: "returned (run_checks e s) = Some (lr, ext, n)" for lr ext n
    by (simp add: runAllChecks_emitted[OF r] image_Un likely_not_check_row likely_summary_row)
  have stuck: "LikelyCauseFileNoServer \<notin> snd ` set (emitted s (final (runAllChecks e s)))"
    if "returned (run_checks e s) = None"
  proof -
    from runAllChecks_stuck_emitted[OF that] obtain lr where
      "emitted s (final (runAllChecks e s)) = [(Info, StartingDiagnostics), protocol_row e,
           (Info, CheckingLocalServers LOCAL_PORTS), local_row lr, (Info, CheckingExternal)]"
      by blast
    then show ?thesis
      by (simp add: protocol_row_def local_row_def)
  qed
  have settles: "\<exists>localResults external net.
         returned (run_checks e s) = Some (localResults, external, net) \<and>
         (LikelyCauseFileNoServer \<in> snd ` set (emitted s (final (runAllChecks e s))) \<longleftrightarrow>
            protocol e = ''file:'' \<and> list_all (\<lambda>r. \<not> ok r) localResults)"
    if a: "\<forall>res. fst (race EXTERNAL_TIMEOUT (network e EXTERNAL_IP_URL external_init)) = Inr res \<longrightarrow>
        body res \<noteq> BodyNever"
  proof -
    from a have "returned (run_checks e s) \<noteq> None"
      unfolding run_checks_returns_iff by blast
    then obtain lr ext n where r: "returned (run_checks e s) = Some (lr, ext, n)"
      by (cases "returned (run_checks e s)") auto
    with iff[OF r] show ?thesis by blast
  qed
  show ?thesis
    using iff stuck settles by blast
qed

lemma scenario_file_stalled_run:
  "emitted page_load (final (runAllChecks scenario_file_stalled page_load)) =
     [(Info, StartingDiagnostics), (Warn, PageLoadedViaFile),
      (Info, CheckingLocalServers [5500, 3000, 8080]),
      (Warn, NoLocalServerDetected [5500, 3000, 8080]),
      (Info, CheckingExternal)]"
  "returned (runAllChecks scenario_file_stalled page_load) = None"
  "returned (run_checks scenario_file_stalled page_load) = None"
  "fst (checkLocalServers scenario_file_stalled
     (checkFileProtocol scenario_file_stalled
        (addMessage Info StartingDiagnostics (ensurePanel page_load)))) =
     [\<lparr>port = 5500, ok = False, info = Some ''Failed to fetch''\<rparr>,
      \<lparr>port = 3000, ok = False, info = Some ''Failed to fetch''\<rparr>,
      \<lparr>port = 8080, ok = False, info = Some ''Failed to fetch''\<rparr>]"
  by (simp_all add: model_defs scenario_file_stalled_def stalled_response_def)

text \<open>
  Claim C1 as stated fails. The page is opened from disk, the probes of all three ports
  are refused, and the IP service sends its headers and then no body: the condition of
  the finding holds, but \<open>await res.json()\<close> never resumes, the run never reaches the
  summaries, and the panel stays at 'Checking external connectivity...' without the
  finding.
\<close>

theorem file_origin_finding_missing:
  "protocol scenario_file_stalled = ''file:'' \<and>
   fst (checkLocalServers scenario_file_stalled
     (checkFileProtocol scenario_file_stalled
        (addMessage Info StartingDiagnostics (ensurePanel page_load)))) =
     [\<lparr>port = 5500, ok = False, info = Some ''Failed to fetch''\<rparr>,
      \<lparr>port = 3000, ok = False, info = Some ''Failed to fetch''\<rparr>,
      \<lparr>port = 8080, ok = False, info = Some ''Failed to fetch''\<rparr>] \<and>
   returned (runAllChecks scenario_file_stalled page_load) = None \<and>
   emitted page_load (final (runAllChecks scenario_file_stalled page_load)) =
     [(Info, StartingDiagnostics), (Warn, PageLoadedViaFile),
      (Info, CheckingLocalServers [5500, 3000, 8080]),
      (Warn, NoLocalServerDetected [5500, 3000, 8080]),
      (Info, CheckingExternal)] \<and>
   LikelyCauseFileNoServer \<notin>
     snd ` set (emitted page_load (final (runAllChecks scenario_file_stalled page_load)))"
  by (simp add: scenario_file_stalled_run) (simp add: scenario_file_stalled_def)

theorem file_origin_finding_iff_witness:
  "returned (run_checks scenario_file page_load) = Some
    ([\<lparr>port = 5500, ok = False, info = Some ''Failed to fetch''\<rparr>,
      \<lparr>port = 3000, ok = False, info = Some ''Failed to fetch''\<rparr>,
      \<lparr>port = 8080, ok = False, info = Some ''Failed to fetch''\<rparr>],
     \<lparr>ext_ok = True, ip = Some (JStr ''203.0.113.45''), error = None\<rparr>,
     \<lparr>online = True, check = Some ''ok''\<rparr>) \<and>
   protocol scenario_file = ''file:'' \<and>
   LikelyCauseFileNoServer \<in> snd ` set (emitted page_load (final (runAllChecks scenario_file page_load))) \<and>
   returned (run_checks scenario_http page_load) = Some
    ([\<lparr>port = 5500, ok = True, info = None\<rparr>,
      \<lparr>port = 3000, ok = False, info = Some ''Failed to fetch''\<rparr>,
      \<lparr>port = 8080, ok = False, info = Some ''Failed to fetch''\<rparr>],
     \<lparr>ext_ok = False, ip = None, error = Some ''timeout''\<rparr>,
     \<lparr>online = True, check = Some ''ok''\<rparr>) \<and>
   LikelyCauseFileNoServer \<notin> snd ` set (emitted page_load (final (runAllChecks scenario_http page_load))) \<and>
   returned (run_checks scenario_file_stalled page_load) = None \<and>
   LikelyCauseFileNoServer \<notin> snd ` set (emitted page_load
     (final (runAllChecks scenario_file_stalled page_load))) \<and>
   fst (race EXTERNAL_TIMEOUT (network scenario_file EXTERNAL_IP_URL external_init)) = Inr ip_response \<and>
   body ip_response = BodyParsed 40 (JObj [(''ip'', JStr ''203.0.113.45'')]) \<and>
   (\<exists>localResults external net.
      returned (run_checks scenario_file page_load) = Some (localResults, external, net) \<and>
      (LikelyCauseFileNoServer \<in> snd ` set (emitted page_load (final (runAllChecks scenario_file page_load))) \<longleftrightarrow>
         protocol scenario_file = ''file:'' \<and> list_all (\<lambda>r. \<not> ok r) localResults))"
proof -
  have r: "fst (race EXTERNAL_TIMEOUT (network scenario_file EXTERNAL_IP_URL external_init)) =
      Inr ip_response"
    by (simp add: scenario_file_def race_def EXTERNAL_TIMEOUT_def)
  have b: "body ip_response = BodyParsed 40 (JObj [(''ip'', JStr ''203.0.113.45'')])"
    by (simp add: ip_response_def)
  have p: "protocol scenario_file = ''file:''" "protocol scenario_http = ''http:''"
    by (simp_all add: scenario_file_def scenario_http_def)
  have one: "LikelyCauseFileNoServer \<in>
      snd ` set (emitted page_load (final (runAllChecks scenario_file page_load)))"
    using file_origin_finding_iff[of scenario_file page_load _ _ _, THEN conjunct1, rule_format,
        OF scenario_file_checks] p
    by simp
  have two: "LikelyCauseFileNoServer \<notin>
      snd ` set (emitted page_load (final (runAllChecks scenario_http page_load)))"
    using file_origin_finding_iff[of scenario_http page_load _ _ _, THEN conjunct1, rule_format,
        OF scenario_http_checks] p
    by simp
  have three: "LikelyCauseFileNoServer \<notin>
      snd ` set (emitted page_load (final (runAllChecks scenario_file_stalled page_load)))"
    using file_origin_finding_iff[of scenario_file_stalled page_load, THEN conjunct2,
        THEN conjunct1, rule_format, OF scenario_file_stalled_run(3)] .
  have four: "\<exists>localResults external net.
      returned (run_checks scenario_file page_load) = Some (localResults, external, net) \<and>
      (LikelyCauseFileNoServer \<in> snd ` set (emitted page_load (final (runAllChecks scenario_file page_load))) \<longleftrightarrow>
         protocol scenario_file = ''file:'' \<and> list_all (\<lambda>r. \<not> ok r) localResults)"
    using file_origin_finding_iff[of scenario_file page_load, THEN conjunct2, THEN conjunct2]
      r b
    by simp
  show ?thesis
    using one two three four r b p scenario_file_checks scenario_http_checks
      scenario_file_stalled_run(3)
    by blast
qed

end
